theory Spec2Isabelle
  imports Complex_Main "HOL-Library.AList"
begin

section \<open>Data model\<close>

text \<open>
  The embedding follows \<^verbatim>\<open>src/src/pipelines/medical_ner_pipeline.py\<close>.
  Python floats are modelled by \<^typ>\<open>real\<close>, Python integers by \<^typ>\<open>int\<close>, and a
  Python string by \<^typ>\<open>string\<close>, one \<^typ>\<open>char\<close> for each code point below 256.
\<close>

datatype EntityType = DISEASE | SYMPTOM | MEDICATION | DOSAGE | ANATOMY | UNKNOWN

text \<open>
  The dataclass \<^verbatim>\<open>MedicalEntity\<close>. The fields \<^verbatim>\<open>text\<close> and \<^verbatim>\<open>type\<close> are
  named \<open>e_text\<close> and \<open>e_type\<close>. The metadata dictionary (an \<^verbatim>\<open>Optional[Dict]\<close>
  whose values are strings) is an association list in insertion order.
\<close>

record MedicalEntity =
  e_text :: string
  e_type :: EntityType
  start_pos :: int
  end_pos :: int
  confidence :: real
  umls_code :: "string option"
  normalized_text :: "string option"
  metadata :: "(string \<times> string) list option"

text \<open>The configuration class \<^verbatim>\<open>NERConfig\<close>, with the options the pipeline stages read.\<close>

record NERConfig =
  AUTO_ACCEPT_THRESHOLD :: real
  REVIEW_THRESHOLD :: real
  REJECT_THRESHOLD :: real
  ENABLE_UMLS :: bool
  USE_CACHE :: bool

definition default_config :: NERConfig where
  "default_config =
     \<lparr>AUTO_ACCEPT_THRESHOLD = 50 / 100, REVIEW_THRESHOLD = 30 / 100,
      REJECT_THRESHOLD = 20 / 100, ENABLE_UMLS = True, USE_CACHE = True\<rparr>"

section \<open>Confidence gate\<close>

text \<open>
  \<^verbatim>\<open>entity.metadata = entity.metadata or {}\<close> followed by
  \<^verbatim>\<open>entity.metadata[k] = v\<close>: a missing or empty dictionary is replaced by a fresh
  one; an existing key keeps its place, a new key goes last.
\<close>

definition metadata_or_empty :: "MedicalEntity \<Rightarrow> (string \<times> string) list" where
  "metadata_or_empty e = (case metadata e of None \<Rightarrow> [] | Some m \<Rightarrow> m)"

definition set_metadata :: "string \<Rightarrow> string \<Rightarrow> MedicalEntity \<Rightarrow> MedicalEntity" where
  "set_metadata k v e = e\<lparr>metadata := Some (AList.update k v (metadata_or_empty e))\<rparr>"

text \<open>\<^verbatim>\<open>MedicalNERPipeline._filter_by_confidence\<close>.\<close>

fun filter_by_confidence :: "NERConfig \<Rightarrow> MedicalEntity list \<Rightarrow> MedicalEntity list" where
  "filter_by_confidence cfg [] = []"
| "filter_by_confidence cfg (entity # entities) =
     (if confidence entity \<ge> AUTO_ACCEPT_THRESHOLD cfg
      then set_metadata ''review_status'' ''auto_accepted'' entity # filter_by_confidence cfg entities
      else if confidence entity \<ge> REVIEW_THRESHOLD cfg
      then set_metadata ''review_status'' ''needs_review'' entity # filter_by_confidence cfg entities
      else filter_by_confidence cfg entities)"

section \<open>Regular expressions\<close>

text \<open>
  The part of Python's \<^verbatim>\<open>re\<close> module the pipeline uses. Character classes read the
  code point of a character: \<^verbatim>\<open>\d\<close>, \<^verbatim>\<open>\s\<close> and \<^verbatim>\<open>\w\<close> are the Unicode
  classes of a \<^verbatim>\<open>str\<close> pattern, cut to the code points below 256.
\<close>

definition is_digit :: "char \<Rightarrow> bool" where
  "is_digit c = (let n = of_char c :: int in 48 \<le> n \<and> n \<le> 57)"

definition is_ascii_letter :: "char \<Rightarrow> bool" where
  "is_ascii_letter c = (let n = of_char c :: int in (65 \<le> n \<and> n \<le> 90) \<or> (97 \<le> n \<and> n \<le> 122))"

definition is_space :: "char \<Rightarrow> bool" where
  "is_space c = (let n = of_char c :: int in
     (9 \<le> n \<and> n \<le> 13) \<or> (28 \<le> n \<and> n \<le> 32) \<or> n = 133 \<or> n = 160)"

definition is_word :: "char \<Rightarrow> bool" where
  "is_word c = (let n = of_char c :: int in
     (48 \<le> n \<and> n \<le> 57) \<or> (65 \<le> n \<and> n \<le> 90) \<or> (97 \<le> n \<and> n \<le> 122) \<or> n = 95 \<or>
     n = 170 \<or> n = 178 \<or> n = 179 \<or> n = 181 \<or> n = 185 \<or> n = 186 \<or>
     (188 \<le> n \<and> n \<le> 190) \<or> (192 \<le> n \<and> n \<le> 214) \<or> (216 \<le> n \<and> n \<le> 246) \<or> 248 \<le> n)"

text \<open>\<^verbatim>\<open>str.lower\<close> on one character, and on a string.\<close>

definition lower_char :: "char \<Rightarrow> char" where
  "lower_char c = (let n = of_char c :: int in
     if (65 \<le> n \<and> n \<le> 90) \<or> (192 \<le> n \<and> n \<le> 214) \<or> (216 \<le> n \<and> n \<le> 222)
     then char_of (n + 32) else c)"

definition lower :: "string \<Rightarrow> string" where
  "lower s = map lower_char s"

text \<open>\<^verbatim>\<open>str.strip\<close>: leading and trailing whitespace is removed.\<close>

definition strip :: "string \<Rightarrow> string" where
  "strip s = rev (dropWhile is_space (rev (dropWhile is_space s)))"

datatype char_class = Digit | Space | Word | AsciiLetter

fun in_class :: "char_class \<Rightarrow> char \<Rightarrow> bool" where
  "in_class Digit c = is_digit c"
| "in_class Space c = is_space c"
| "in_class Word c = is_word c"
| "in_class AsciiLetter c = is_ascii_letter c"

text \<open>
  Pattern syntax trees. \<open>Chars w\<close> is the literal text \<open>w\<close>, \<open>Class k\<close> one character
  of a class, \<open>Star k\<close> and \<open>Plus k\<close> the greedy repetitions \<^verbatim>\<open>k*\<close> and \<^verbatim>\<open>k+\<close> of
  a class (the only repetitions the source's patterns have), \<open>Opt r\<close> the greedy
  \<^verbatim>\<open>r?\<close>, \<open>WordB\<close> the assertion \<^verbatim>\<open>\b\<close>. Groups only delimit and are not
  represented.
\<close>

datatype regex =
    Chars string
  | Class char_class
  | Star char_class
  | Plus char_class
  | Opt regex
  | Seq regex regex
  | Alt regex regex
  | WordB

definition word_boundary :: "string \<Rightarrow> nat \<Rightarrow> bool" where
  "word_boundary s i =
     ((0 < i \<and> i \<le> length s \<and> is_word (s ! (i - 1))) \<noteq> (i < length s \<and> is_word (s ! i)))"

text \<open>
  A literal is compared with the text character by character, from the left; under
  \<^verbatim>\<open>re.IGNORECASE\<close> two characters are the same when their lower-case forms are.
\<close>

definition same_char :: "bool \<Rightarrow> char \<Rightarrow> char \<Rightarrow> bool" where
  "same_char ignorecase a b = (if ignorecase then lower_char a = lower_char b else a = b)"

fun literal_at :: "bool \<Rightarrow> string \<Rightarrow> string \<Rightarrow> bool" where
  "literal_at ignorecase [] t = True"
| "literal_at ignorecase (a # w) [] = False"
| "literal_at ignorecase (a # w) (b # t) =
     (if same_char ignorecase a b then literal_at ignorecase w t else False)"

definition run_length :: "char_class \<Rightarrow> string \<Rightarrow> nat \<Rightarrow> nat" where
  "run_length k s i = length (takeWhile (in_class k) (drop i s))"

text \<open>
  \<open>ends ic r s i\<close> lists the positions where a match of \<open>r\<close> that starts at position
  \<open>i\<close> of \<open>s\<close> can end, in the order in which the backtracking matcher tries them:
  the left alternative before the right one, the longer repetition before the shorter
  one. Its head is the end of the match Python reports; \<open>ic\<close> is the flag
  \<^verbatim>\<open>re.IGNORECASE\<close>.
\<close>

fun ends :: "bool \<Rightarrow> regex \<Rightarrow> string \<Rightarrow> nat \<Rightarrow> nat list" where
  "ends ic (Chars w) s i = (if literal_at ic w (drop i s) then [i + length w] else [])"
| "ends ic (Class k) s i = (if i < length s \<and> in_class k (s ! i) then [Suc i] else [])"
| "ends ic (Star k) s i = map (\<lambda>n. i + n) (rev [0..<Suc (run_length k s i)])"
| "ends ic (Plus k) s i = map (\<lambda>n. i + n) (rev [1..<Suc (run_length k s i)])"
| "ends ic (Opt r) s i = ends ic r s i @ [i]"
| "ends ic (Seq r1 r2) s i = concat (map (ends ic r2 s) (ends ic r1 s i))"
| "ends ic (Alt r1 r2) s i = ends ic r1 s i @ ends ic r2 s i"
| "ends ic WordB s i = (if word_boundary s i then [i] else [])"

text \<open>Sequences and alternations of several parts, and alternations of literal words.\<close>

definition seqs :: "regex list \<Rightarrow> regex" where
  "seqs rs = foldr Seq (butlast rs) (last rs)"

definition alts :: "regex list \<Rightarrow> regex" where
  "alts rs = foldr Alt (butlast rs) (last rs)"

definition words :: "string list \<Rightarrow> regex" where
  "words ws = alts (map Chars ws)"

text \<open>
  \<^verbatim>\<open>pattern.search(s)\<close> and \<^verbatim>\<open>pattern.fullmatch(s)\<close>, as the truth value of the
  returned match object: a match starts somewhere in \<open>s\<close>; a match that starts at 0
  ends at the end of \<open>s\<close>.
\<close>

definition re_search :: "bool \<Rightarrow> regex \<Rightarrow> string \<Rightarrow> bool" where
  "re_search ic r s = list_ex (\<lambda>i. ends ic r s i \<noteq> []) [0..<Suc (length s)]"

definition re_fullmatch :: "bool \<Rightarrow> regex \<Rightarrow> string \<Rightarrow> bool" where
  "re_fullmatch ic r s = (length s \<in> set (ends ic r s 0))"

text \<open>
  \<^verbatim>\<open>re.finditer\<close>: the matches from left to right as pairs (start, end), each the
  first match at the leftmost position that has one, the scan going on where the match
  ended (one position further after an empty match; no pattern of the pipeline matches
  the empty string).
\<close>

function finditer_from :: "bool \<Rightarrow> regex \<Rightarrow> string \<Rightarrow> nat \<Rightarrow> (nat \<times> nat) list" where
  "finditer_from ic r s pos =
     (if length s < pos then []
      else case ends ic r s pos of
             [] \<Rightarrow> finditer_from ic r s (Suc pos)
           | e # _ \<Rightarrow> (pos, e) # finditer_from ic r s (if pos < e then e else Suc pos))"
  by pat_completeness auto
termination
  by (relation "measure (\<lambda>(ic, r, s, pos). Suc (length s) - pos)") auto

definition finditer :: "bool \<Rightarrow> regex \<Rightarrow> string \<Rightarrow> (nat \<times> nat) list" where
  "finditer ic r s = finditer_from ic r s 0"

text \<open>
  \<^verbatim>\<open>re.sub(pattern, repl, s)\<close>: the text between the matches is kept and each match
  is replaced; \<open>repl\<close> maps the matched text to its replacement.
\<close>

fun sub_build :: "string \<Rightarrow> (string \<Rightarrow> string) \<Rightarrow> nat \<Rightarrow> (nat \<times> nat) list \<Rightarrow> string" where
  "sub_build s repl pos [] = drop pos s"
| "sub_build s repl pos ((i, e) # ms) =
     take (i - pos) (drop pos s) @ repl (take (e - i) (drop i s)) @ sub_build s repl e ms"

definition re_sub :: "bool \<Rightarrow> regex \<Rightarrow> (string \<Rightarrow> string) \<Rightarrow> string \<Rightarrow> string" where
  "re_sub ic r repl s = sub_build s repl 0 (finditer ic r s)"

section \<open>Rule-based classifier\<close>

text \<open>
  \<^verbatim>\<open>RuleBasedClassifier._initialize_patterns\<close>: the dictionary from entity type to
  patterns, in its insertion order, each pattern compiled with \<^verbatim>\<open>re.IGNORECASE\<close>.
  \<open>opt_s w\<close> is a word with an optional final s, as in \<^verbatim>\<open>milligrams?\<close>.
\<close>

definition opt_s :: "string \<Rightarrow> regex" where
  "opt_s w = Seq (Chars w) (Opt (Chars ''s''))"

definition medication_patterns :: "regex list" where
  "medication_patterns =
    [seqs [WordB, Plus Word,
           words [''olol'', ''pril'', ''pine'', ''zole'', ''cillin'', ''mycin'', ''vir'', ''mab'',
                  ''nib'', ''stat'', ''pram'', ''zepam'', ''done'', ''sone'', ''ide'', ''ine'', ''ate''],
           WordB],
     seqs [WordB,
           words [''metformin'', ''insulin'', ''aspirin'', ''ibuprofen'', ''acetaminophen'',
                  ''tylenol'', ''advil'', ''amoxicillin'', ''lisinopril'', ''metoprolol'',
                  ''atorvastatin'', ''lipitor'', ''omeprazole'', ''levothyroxine'', ''gabapentin'',
                  ''prednisone'', ''hydrochlorothiazide'', ''furosemide'', ''amlodipine'',
                  ''losartan'', ''simvastatin'', ''pantoprazole'', ''warfarin'', ''tramadol''],
           WordB]]"

definition dosage_patterns :: "regex list" where
  "dosage_patterns =
    [seqs [Plus Digit, Opt (Chars ''.''), Star Digit, Opt (Class Space),
           alts [Chars ''mg'', opt_s ''milligram'', Chars ''mcg'', opt_s ''microgram'', Chars ''g'',
                 opt_s ''gram'', Chars ''ml'', opt_s ''milliliter'', Chars ''cc'', opt_s ''unit'',
                 Chars ''iu'', opt_s ''tablet'', opt_s ''pill'', opt_s ''cap'', opt_s ''capsule'',
                 opt_s ''drop'', opt_s ''puff'']],
     seqs [WordB, words [''once'', ''twice'', ''three times'', ''four times''], Plus Space,
           words [''daily'', ''a day'', ''per day'']],
     seqs [WordB, words [''bid'', ''tid'', ''qid'', ''prn'', ''qd'', ''qhs'', ''qod''], WordB],
     seqs [WordB, words [''every'', ''each''], Plus Space, Plus Digit, Plus Space,
           alts [opt_s ''hour'', opt_s ''day'', opt_s ''week'', opt_s ''month'']]]"

definition symptom_patterns :: "regex list" where
  "symptom_patterns =
    [seqs [WordB, Star Word, Star Space,
           words [''pain'', ''ache'', ''soreness'', ''tenderness'', ''discomfort''], WordB],
     seqs [WordB,
           words [''fever'', ''chills'', ''fatigue'', ''weakness'', ''nausea'', ''vomiting'',
                  ''diarrhea'', ''constipation'', ''cough'', ''shortness of breath'', ''dyspnea'',
                  ''headache'', ''dizziness'', ''vertigo'', ''rash'', ''itching'', ''pruritus'',
                  ''swelling'', ''edema'', ''bleeding'', ''discharge'', ''numbness'', ''tingling'',
                  ''paresthesia'', ''insomnia'', ''anxiety'', ''depression''],
           WordB],
     seqs [WordB,
           words [''acute'', ''chronic'', ''severe'', ''mild'', ''moderate'', ''intermittent'',
                  ''constant'', ''sudden'', ''gradual'', ''sharp'', ''dull'', ''burning'',
                  ''throbbing'', ''stabbing''],
           Plus Space, Plus Word]]"

definition disease_patterns :: "regex list" where
  "disease_patterns =
    [seqs [WordB, Plus Word,
           words [''itis'', ''osis'', ''emia'', ''oma'', ''pathy'', ''syndrome'', ''disease'',
                  ''disorder'', ''deficiency''],
           WordB],
     seqs [WordB,
           words [''diabetes'', ''hypertension'', ''asthma'', ''copd'', ''pneumonia'', ''bronchitis'',
                  ''arthritis'', ''osteoporosis'', ''cancer'', ''tumor'', ''malignancy'',
                  ''infection'', ''sepsis'', ''stroke'', ''cva'', ''mi'', ''myocardial infarction'',
                  ''heart failure'', ''chf'', ''atrial fibrillation'', ''afib'',
                  ''anemia'', ''hypothyroidism'', ''hyperthyroidism'',
                  ''depression'', ''anxiety'', ''bipolar'', ''schizophrenia'',
                  ''alzheimer'', ''dementia'', ''parkinson'', ''epilepsy'', ''seizure''],
           WordB]]"

definition anatomy_patterns :: "regex list" where
  "anatomy_patterns =
    [seqs [WordB,
           words [''head'', ''brain'', ''skull'', ''eye'', ''ear'', ''nose'', ''mouth'', ''throat'',
                  ''neck'', ''chest'', ''heart'', ''lung'', ''liver'', ''kidney'', ''stomach'',
                  ''intestine'', ''colon'', ''arm'', ''leg'', ''foot'', ''hand'', ''finger'', ''toe'',
                  ''back'', ''spine'', ''bone'', ''muscle'', ''skin'', ''blood'', ''nerve'', ''vessel'',
                  ''artery'', ''vein''],
           WordB],
     seqs [WordB,
           words [''cardiac'', ''pulmonary'', ''hepatic'', ''renal'', ''gastric'', ''cerebral'',
                  ''thoracic'', ''abdominal'', ''cervical'', ''lumbar'', ''cranial''],
           WordB]]"

definition compiled_patterns :: "(EntityType \<times> regex list) list" where
  "compiled_patterns =
    [(MEDICATION, medication_patterns), (DOSAGE, dosage_patterns), (SYMPTOM, symptom_patterns),
     (DISEASE, disease_patterns), (ANATOMY, anatomy_patterns)]"

text \<open>
  \<^verbatim>\<open>RuleBasedClassifier.classify\<close>: the two nested loops return at the first pattern
  that \<^verbatim>\<open>search\<close> finds in the lower-cased, stripped text.
\<close>

fun classify_groups :: "(EntityType \<times> regex list) list \<Rightarrow> string \<Rightarrow> EntityType option \<times> real" where
  "classify_groups [] text_lower = (None, 0)"
| "classify_groups ((entity_type, patterns) # groups) text_lower =
     (case find (\<lambda>pattern. re_search True pattern text_lower) patterns of
        Some pattern \<Rightarrow>
          (Some entity_type, if re_fullmatch True pattern text_lower then 95 / 100 else 85 / 100)
      | None \<Rightarrow> classify_groups groups text_lower)"

definition classify :: "string \<Rightarrow> EntityType option \<times> real" where
  "classify txt = classify_groups compiled_patterns (strip (lower txt))"

section \<open>Text normalizer\<close>

text \<open>
  \<^verbatim>\<open>MedicalNERPipeline._preprocess_text\<close>. In the second substitution the template
  \<^verbatim>\<open>\1 \2\<close> puts a space between the two groups of the match: the first group is
  the digits the match starts with, the second the letters after them.
\<close>

definition abbreviations :: "(string \<times> string) list" where
  "abbreviations =
    [(''pt'', ''patient''), (''hx'', ''history''), (''dx'', ''diagnosis''), (''tx'', ''treatment''),
     (''rx'', ''prescription''), (''sx'', ''symptoms''), (''c/o'', ''complains of''),
     (''w/'', ''with''), (''w/o'', ''without''), (''yo'', ''year old''), (''y/o'', ''year old'')]"

definition split_number_unit :: "string \<Rightarrow> string" where
  "split_number_unit m = takeWhile is_digit m @ '' '' @ dropWhile is_digit m"

definition expand_abbreviation :: "string \<Rightarrow> string \<times> string \<Rightarrow> string" where
  "expand_abbreviation txt a =
     re_sub True (seqs [WordB, Chars (fst a), WordB]) (\<lambda>m. snd a) txt"

definition preprocess_text :: "string \<Rightarrow> string" where
  "preprocess_text txt =
     (let t1 = re_sub False (Plus Space) (\<lambda>m. '' '') txt;
          t2 = re_sub False (Seq (Plus Digit) (Plus AsciiLetter)) split_number_unit t1
      in foldl expand_abbreviation t2 abbreviations)"

section \<open>Candidate generator\<close>

record candidate =
  cand_text :: string
  cand_start :: int
  cand_end :: int
  score :: real

text \<open>
  The statistical tagger \<^verbatim>\<open>self.ner_pipeline\<close> is external: \<open>None\<close> when the
  fallback model was loaded, otherwise a function from the text to the spans it
  returns, or to \<open>None\<close> when the call raises.
\<close>

type_synonym tagger = "(string \<Rightarrow> candidate list option) option"

definition candidate_patterns :: "(regex \<times> real) list" where
  "candidate_patterns =
    [(seqs [WordB, Plus Word, Plus Space, Plus Digit, Opt (Class Space), Chars ''mg'', WordB], 85 / 100),
     (seqs [WordB, words [''diabetes'', ''hypertension'', ''infection'', ''infarction''], WordB], 90 / 100),
     (seqs [WordB, words [''fever'', ''headache'', ''pain'', ''stiffness'', ''nausea''], WordB], 85 / 100),
     (seqs [WordB, Plus Digit, Opt (Class Space),
            words [''mg'', ''ml'', ''mcg'', ''daily'', ''twice daily'', ''BID''], WordB], 80 / 100),
     (seqs [WordB, Plus Word, words [''itis'', ''osis'', ''emia'', ''oma'', ''pathy''], WordB], 75 / 100),
     (seqs [WordB,
            words [''metformin'', ''aspirin'', ''atorvastatin'', ''metoprolol'', ''ibuprofen'',
                   ''lisinopril''], WordB], 90 / 100)]"

definition pattern_candidates :: "string \<Rightarrow> regex \<times> real \<Rightarrow> candidate list" where
  "pattern_candidates txt p =
     map (\<lambda>(i, e). \<lparr>cand_text = take (e - i) (drop i txt), cand_start = int i, cand_end = int e,
                     score = snd p\<rparr>)
         (finditer True (fst p) txt)"

text \<open>The loop that removes duplicates: the first candidate of each key is kept.\<close>

fun unique_candidates :: "(string \<times> int) list \<Rightarrow> candidate list \<Rightarrow> candidate list" where
  "unique_candidates seen [] = []"
| "unique_candidates seen (cand # cands) =
     (let key = (lower (cand_text cand), cand_start cand)
      in if key \<notin> set seen then cand # unique_candidates (key # seen) cands
         else unique_candidates seen cands)"

definition extract_entity_candidates :: "tagger \<Rightarrow> string \<Rightarrow> candidate list" where
  "extract_entity_candidates ner_pipeline txt =
     (let tagged = (case ner_pipeline of
                      None \<Rightarrow> []
                    | Some run \<Rightarrow> (case run txt of None \<Rightarrow> [] | Some entities \<Rightarrow> entities))
      in unique_candidates [] (tagged @ concat (map (pattern_candidates txt) candidate_patterns)))"

section \<open>Knowledge-base client\<close>

text \<open>
  The class \<^verbatim>\<open>UMLSClient\<close>. The terminology service, the wall clock, the process
  environment and the floating-point unit are outside the program. They are given by a
  \<open>world\<close>: the answer to the \<open>n\<close>-th HTTP request the client issues, the value of
  the \<open>n\<close>-th reading of \<^verbatim>\<open>time.time()\<close>, the environment variable
  \<^verbatim>\<open>UMLS_API_KEY\<close>, and the function \<open>round3\<close> that gives what \<^verbatim>\<open>round(x, 3)\<close>
  returns. Python rounds the double it has computed, so near a tie the result depends
  on the rounding error of that double (\<^verbatim>\<open>round(0.95 * 0.85, 3)\<close> is 0.807); the exact
  value does not determine it, and no property of \<open>round3\<close> is assumed. A request
  either raises (connection error, timeout) or returns a status code and a content.
\<close>

datatype 'a reply = Raised | Reply int 'a

text \<open>
  An entry of the search result list, by what the client reads from it. \<open>Hit ui name\<close>
  is an object whose fields \<^verbatim>\<open>ui\<close> and \<^verbatim>\<open>name\<close> are strings (the empty string for
  a missing field). \<open>BadName ui msg\<close> is an object with a string \<^verbatim>\<open>ui\<close> whose
  \<^verbatim>\<open>name\<close> is not a string (null, a number): reading it with \<^verbatim>\<open>get\<close> succeeds
  and \<^verbatim>\<open>concept_name.lower()\<close> raises. \<open>NotDict msg\<close> is an entry that is not an
  object (a string, a number, null): every \<^verbatim>\<open>get\<close> on it raises. In both cases
  \<open>msg\<close> is the text of the exception.
\<close>

datatype search_hit = Hit string string | BadName string string | NotDict string

record world =
  environ_api_key :: "string option"
  clock :: "nat \<Rightarrow> real"
  auth_post :: "nat \<Rightarrow> string \<Rightarrow> string option reply"
  ticket_post :: "nat \<Rightarrow> string \<Rightarrow> string reply"
  search_get :: "nat \<Rightarrow> string \<Rightarrow> string \<Rightarrow> bool \<Rightarrow> search_hit list option reply"
  concept_get :: "nat \<Rightarrow> string \<Rightarrow> string \<Rightarrow> string list option reply"
  round3 :: "real \<Rightarrow> real"

text \<open>
  \<open>auth_post w n key\<close> answers with the \<^verbatim>\<open>location\<close> header; \<open>ticket_post w n tgt\<close>
  with the body text; \<open>search_get w n ticket term exact\<close> with the decoded list
  \<^verbatim>\<open>result.results\<close> (\<open>None\<close> when decoding raises); \<open>concept_get w n cui ticket\<close>
  with the \<^verbatim>\<open>uri\<close> fields of \<^verbatim>\<open>result.semanticTypes\<close> (\<open>None\<close> when the body does
  not decode or holds no result).

  The dictionary a lookup returns, with its three shapes of \<^verbatim>\<open>metadata\<close>.
\<close>

datatype umls_metadata =
    MetaError string
  | MetaNoResults
  | MetaSuccess string "string list" real

record lookup_result =
  lr_entity_type :: EntityType
  lr_umls_code :: "string option"
  lr_confidence :: real
  lr_metadata :: "umls_metadata option"

text \<open>A row of the table \<^verbatim>\<open>umls_cache\<close>; the column \<^verbatim>\<open>term\<close> is the key.\<close>

record cache_row =
  row_result :: lookup_result
  timestamp :: int

text \<open>
  The client object. \<open>requests\<close> and \<open>clock_reads\<close> count the HTTP requests issued
  and the clock readings made so far.
\<close>

record UMLSClient =
  api_key :: string
  use_cache :: bool
  tgt_url :: "string option"
  tgt_expiry :: real
  cache :: "(string \<times> cache_row) list"
  requests :: nat
  clock_reads :: nat

definition time_time :: "world \<Rightarrow> UMLSClient \<Rightarrow> real \<times> UMLSClient" where
  "time_time w c = (clock w (clock_reads c), c\<lparr>clock_reads := Suc (clock_reads c)\<rparr>)"

definition sent :: "UMLSClient \<Rightarrow> UMLSClient" where
  "sent c = c\<lparr>requests := Suc (requests c)\<rparr>"

text \<open>\<^verbatim>\<open>int(x)\<close> on a float: truncation towards zero.\<close>

definition py_int :: "real \<Rightarrow> int" where
  "py_int x = (if 0 \<le> x then \<lfloor>x\<rfloor> else \<lceil>x\<rceil>)"

text \<open>Truth value of an optional string: \<^verbatim>\<open>None\<close> and the empty string are false.\<close>

fun truthy :: "string option \<Rightarrow> bool" where
  "truthy None = False"
| "truthy (Some s) = (s \<noteq> [])"

definition cache_key :: "string \<Rightarrow> string" where
  "cache_key term = strip (lower term)"

text \<open>\<^verbatim>\<open>UMLSClient._get_cached_result\<close>.\<close>

definition get_cached_result :: "world \<Rightarrow> string \<Rightarrow> UMLSClient \<Rightarrow> lookup_result option \<times> UMLSClient" where
  "get_cached_result w term c =
     (if \<not> use_cache c then (None, c)
      else case map_of (cache c) (cache_key term) of
             None \<Rightarrow> (None, c)
           | Some row \<Rightarrow>
               (let (now, c1) = time_time w c
                in if now - of_int (timestamp row) < 30 * 24 * 3600
                   then (Some (row_result row), c1) else (None, c1)))"

text \<open>\<^verbatim>\<open>UMLSClient._cache_result\<close>: \<^verbatim>\<open>INSERT OR REPLACE\<close> under the key.\<close>

definition cache_result :: "world \<Rightarrow> string \<Rightarrow> lookup_result \<Rightarrow> UMLSClient \<Rightarrow> UMLSClient" where
  "cache_result w term result c =
     (if \<not> use_cache c then c
      else let (now, c1) = time_time w c
           in c1\<lparr>cache := AList.update (cache_key term)
                               \<lparr>row_result = result, timestamp = py_int now\<rparr> (cache c1)\<rparr>)"

text \<open>\<^verbatim>\<open>UMLSClient._get_tgt_url\<close>.\<close>

definition request_tgt :: "world \<Rightarrow> UMLSClient \<Rightarrow> string option \<times> UMLSClient" where
  "request_tgt w c =
     (case auth_post w (requests c) (api_key c) of
        Raised \<Rightarrow> (None, sent c)
      | Reply status_code location \<Rightarrow>
          if status_code = 201
          then (let c1 = (sent c)\<lparr>tgt_url := location\<rparr>
                in if truthy location
                   then (let (now, c2) = time_time w c1
                         in (location, c2\<lparr>tgt_expiry := now + 8 * 3600\<rparr>))
                   else (None, c1))
          else (None, sent c))"

definition get_tgt_url :: "world \<Rightarrow> UMLSClient \<Rightarrow> string option \<times> UMLSClient" where
  "get_tgt_url w c =
     (if truthy (tgt_url c)
      then (let (now, c1) = time_time w c
            in if now < tgt_expiry c1 then (tgt_url c1, c1) else request_tgt w c1)
      else request_tgt w c)"

text \<open>\<^verbatim>\<open>UMLSClient._get_fresh_service_ticket\<close>.\<close>

definition get_fresh_service_ticket :: "world \<Rightarrow> UMLSClient \<Rightarrow> string option \<times> UMLSClient" where
  "get_fresh_service_ticket w c =
     (let (tgt, c1) = get_tgt_url w c
      in case tgt of
           None \<Rightarrow> (None, c1)
         | Some url \<Rightarrow>
             if url = [] then (None, c1)
             else (case ticket_post w (requests c1) url of
                     Raised \<Rightarrow> (None, sent c1)
                   | Reply status_code body \<Rightarrow>
                       if status_code = 200 then (Some (strip body), sent c1) else (None, sent c1)))"

text \<open>
  \<^verbatim>\<open>UMLSClient._search_umls_concept\<close>: an exact search, then an approximate one.
  After a successful exact search the debug line reads \<^verbatim>\<open>name\<close> and \<^verbatim>\<open>ui\<close> of
  the first entry inside the \<^verbatim>\<open>try\<close>, so a first entry that is not an object
  raises there and the search returns the empty list. The approximate search returns
  its list unread.
\<close>

definition search_approximate :: "world \<Rightarrow> string \<Rightarrow> UMLSClient \<Rightarrow> search_hit list \<times> UMLSClient" where
  "search_approximate w term c =
     (let (service_ticket, c1) = get_fresh_service_ticket w c
      in case service_ticket of
           None \<Rightarrow> ([], c1)
         | Some ticket \<Rightarrow>
             if ticket = [] then ([], c1)
             else (case search_get w (requests c1) ticket term False of
                     Raised \<Rightarrow> ([], sent c1)
                   | Reply status_code body \<Rightarrow>
                       if status_code = 200
                       then (case body of None \<Rightarrow> ([], sent c1) | Some results \<Rightarrow> (results, sent c1))
                       else ([], sent c1)))"

definition search_umls_concept :: "world \<Rightarrow> string \<Rightarrow> UMLSClient \<Rightarrow> search_hit list \<times> UMLSClient" where
  "search_umls_concept w term c =
     (let (service_ticket, c1) = get_fresh_service_ticket w c
      in case service_ticket of
           None \<Rightarrow> ([], c1)
         | Some ticket \<Rightarrow>
             if ticket = [] then ([], c1)
             else (case search_get w (requests c1) ticket term True of
                     Raised \<Rightarrow> ([], sent c1)
                   | Reply status_code body \<Rightarrow>
                       if status_code = 200
                       then (case body of
                               None \<Rightarrow> ([], sent c1)
                             | Some results \<Rightarrow>
                                 (case results of
                                    [] \<Rightarrow> search_approximate w term (sent c1)
                                  | NotDict msg # _ \<Rightarrow> ([], sent c1)
                                  | _ \<Rightarrow> (results, sent c1)))
                       else ([], sent c1)))"

text \<open>
  \<^verbatim>\<open>UMLSClient._get_concept_details\<close>; \<open>None\<close> is the empty dictionary, otherwise
  the \<^verbatim>\<open>uri\<close> fields of the semantic types.
\<close>

definition get_concept_details :: "world \<Rightarrow> string \<Rightarrow> UMLSClient \<Rightarrow> string list option \<times> UMLSClient" where
  "get_concept_details w cui c =
     (let (service_ticket, c1) = get_fresh_service_ticket w c
      in case service_ticket of
           None \<Rightarrow> (None, c1)
         | Some ticket \<Rightarrow>
             if ticket = [] then (None, c1)
             else if take 1 cui = ''C'' \<and> length cui = 8
             then (case concept_get w (requests c1) cui ticket of
                     Raised \<Rightarrow> (None, sent c1)
                   | Reply status_code body \<Rightarrow>
                       if status_code = 200 then (body, sent c1) else (None, sent c1))
             else (None, c1))"

text \<open>\<^verbatim>\<open>UMLSClient._map_semantic_type_to_entity\<close>.\<close>

definition semantic_mapping :: "(string \<times> EntityType) list" where
  "semantic_mapping =
    [(''T047'', DISEASE), (''T046'', DISEASE), (''T048'', DISEASE), (''T049'', DISEASE),
     (''T019'', DISEASE), (''T020'', DISEASE), (''T037'', DISEASE), (''T050'', DISEASE),
     (''T184'', SYMPTOM), (''T033'', DISEASE), (''T034'', SYMPTOM), (''T201'', SYMPTOM),
     (''T121'', MEDICATION), (''T195'', MEDICATION), (''T200'', MEDICATION), (''T203'', MEDICATION),
     (''T122'', MEDICATION), (''T103'', MEDICATION), (''T109'', MEDICATION), (''T114'', MEDICATION),
     (''T115'', MEDICATION), (''T116'', MEDICATION), (''T118'', MEDICATION), (''T119'', MEDICATION),
     (''T120'', MEDICATION), (''T125'', MEDICATION), (''T126'', MEDICATION), (''T127'', MEDICATION),
     (''T129'', MEDICATION), (''T130'', MEDICATION), (''T131'', MEDICATION),
     (''T017'', ANATOMY), (''T029'', ANATOMY), (''T023'', ANATOMY), (''T030'', ANATOMY),
     (''T031'', ANATOMY), (''T022'', ANATOMY), (''T025'', ANATOMY), (''T026'', ANATOMY),
     (''T018'', ANATOMY), (''T021'', ANATOMY), (''T024'', ANATOMY), (''T028'', ANATOMY)]"

definition add_semantic_type :: "(EntityType \<times> real) list \<Rightarrow> string \<Rightarrow> (EntityType \<times> real) list" where
  "add_semantic_type confidence_scores sem_type =
     (case map_of semantic_mapping sem_type of
        None \<Rightarrow> confidence_scores
      | Some entity_type \<Rightarrow> AList.map_entry entity_type (\<lambda>x. x + 9 / 10) confidence_scores)"

text \<open>\<^verbatim>\<open>max(confidence_scores, key=confidence_scores.get)\<close>: the first key of the largest value.\<close>

fun max_by_value :: "EntityType \<times> real \<Rightarrow> (EntityType \<times> real) list \<Rightarrow> EntityType \<times> real" where
  "max_by_value best [] = best"
| "max_by_value best (x # xs) = (if snd best < snd x then max_by_value x xs else max_by_value best xs)"

definition map_semantic_type_to_entity :: "string list \<Rightarrow> EntityType \<times> real" where
  "map_semantic_type_to_entity semantic_types =
     (let confidence_scores =
            foldl add_semantic_type [(DISEASE, 0), (SYMPTOM, 0), (MEDICATION, 0), (ANATOMY, 0)]
                  semantic_types;
          best = max_by_value (hd confidence_scores) (tl confidence_scores)
      in if 0 < snd best then (fst best, min (snd best) (95 / 100)) else (UNKNOWN, 1 / 2))"

text \<open>
  \<^verbatim>\<open>a in b\<close> on strings, \<^verbatim>\<open>str.split()\<close> on whitespace, and
  \<^verbatim>\<open>UMLSClient._calculate_name_similarity\<close>.
\<close>

definition is_substring :: "string \<Rightarrow> string \<Rightarrow> bool" where
  "is_substring a b = list_ex (\<lambda>i. literal_at False a (drop i b)) [0..<Suc (length b)]"

fun split_from :: "string \<Rightarrow> string \<Rightarrow> string list" where
  "split_from cur [] = (if cur = [] then [] else [cur])"
| "split_from cur (ch # rest) =
     (if is_space ch then (if cur = [] then split_from [] rest else cur # split_from [] rest)
      else split_from (cur @ [ch]) rest)"

definition split_words :: "string \<Rightarrow> string list" where
  "split_words s = split_from [] s"

definition calculate_name_similarity :: "string \<Rightarrow> string \<Rightarrow> real" where
  "calculate_name_similarity term1 term2 =
     (if term1 = term2 then 1
      else if is_substring term1 term2 \<or> is_substring term2 term1 then 9 / 10
      else let words1 = remdups (split_words term1);
               words2 = remdups (split_words term2);
               overlap = length (filter (\<lambda>x. x \<in> set words2) words1);
               total = length (remdups (words1 @ words2))
           in if overlap \<noteq> 0 then 7 / 10 + (real overlap / real total) * (2 / 10) else 6 / 10)"

text \<open>\<^verbatim>\<open>uri.split('/TUI/')[-1]\<close>: the text after the last separator found from the left.\<close>

function last_part :: "string \<Rightarrow> string \<Rightarrow> string \<Rightarrow> string" where
  "last_part sep cur [] = cur"
| "last_part sep cur (ch # rest) =
     (if sep \<noteq> [] \<and> literal_at False sep (ch # rest)
      then last_part sep [] (drop (length sep) (ch # rest))
      else last_part sep (cur @ [ch]) rest)"
  by pat_completeness auto
termination
  by (relation "measure (\<lambda>(sep, cur, rest). length rest)") auto

definition extract_t_codes :: "string list \<Rightarrow> string list" where
  "extract_t_codes uris =
     map (\<lambda>uri. last_part ''/TUI/'' [] uri)
         (filter (\<lambda>uri. uri \<noteq> [] \<and> is_substring ''/TUI/'' uri) uris)"

text \<open>
  \<^verbatim>\<open>UMLSClient.lookup_term\<close>. An exception inside the \<^verbatim>\<open>try\<close> block gives the
  error result, which is not cached: at the first read of an entry that is not an
  object, or, for an entry whose name is not a string, at \<^verbatim>\<open>concept_name.lower()\<close>,
  after the concept details were requested.
\<close>

definition error_result :: "string \<Rightarrow> lookup_result" where
  "error_result msg =
     \<lparr>lr_entity_type = UNKNOWN, lr_umls_code = None, lr_confidence = 0,
      lr_metadata = Some (MetaError msg)\<rparr>"

definition no_results :: lookup_result where
  "no_results =
     \<lparr>lr_entity_type = UNKNOWN, lr_umls_code = None, lr_confidence = 3 / 10,
      lr_metadata = Some MetaNoResults\<rparr>"

definition resolve_concept :: "world \<Rightarrow> string \<Rightarrow> string \<Rightarrow> string \<Rightarrow> UMLSClient \<Rightarrow> lookup_result \<times> UMLSClient" where
  "resolve_concept w term cui concept_name c =
     (let (concept_details, c1) = get_concept_details w cui c;
          semantic_types = (case concept_details of None \<Rightarrow> [] | Some uris \<Rightarrow> extract_t_codes uris);
          (entity_type, base_confidence) = map_semantic_type_to_entity semantic_types;
          name_similarity = calculate_name_similarity (lower term) (lower concept_name);
          final_confidence = base_confidence * name_similarity;
          result = \<lparr>lr_entity_type = entity_type, lr_umls_code = Some cui,
                    lr_confidence = round3 w final_confidence,
                    lr_metadata = Some (MetaSuccess concept_name semantic_types
                                          (round3 w name_similarity))\<rparr>
      in (result, cache_result w term result c1))"

definition lookup_term :: "world \<Rightarrow> string \<Rightarrow> UMLSClient \<Rightarrow> lookup_result \<times> UMLSClient" where
  "lookup_term w term c =
     (let (cached, c1) = get_cached_result w term c
      in case cached of
           Some result \<Rightarrow> (result, c1)
         | None \<Rightarrow>
             if \<not> truthy (environ_api_key w) then (error_result ''No API key'', c1)
             else (let (search_results, c2) = search_umls_concept w term c1
                   in (case search_results of
                         [] \<Rightarrow> (no_results, cache_result w term no_results c2)
                       | NotDict msg # _ \<Rightarrow> (error_result msg, c2)
                       | BadName cui msg # _ \<Rightarrow>
                           (let (concept_details, c3) = get_concept_details w cui c2
                            in (error_result msg, c3))
                       | Hit cui concept_name # _ \<Rightarrow> resolve_concept w term cui concept_name c2)))"

text \<open>
  When the client abandons the answer to a request. The credential request: unless the
  status is 201 and the \<^verbatim>\<open>location\<close> header is non-empty. The ticket request: unless
  the status is 200 and the stripped body is non-empty. A search or a concept-detail
  request: unless the status is 200 and the body decodes (for the details, to a
  non-empty \<^verbatim>\<open>result\<close>). In each case also when the request raises.
\<close>

fun auth_failed :: "string option reply \<Rightarrow> bool" where
  "auth_failed Raised = True"
| "auth_failed (Reply status_code location) = (status_code \<noteq> 201 \<or> \<not> truthy location)"

fun ticket_failed :: "string reply \<Rightarrow> bool" where
  "ticket_failed Raised = True"
| "ticket_failed (Reply status_code body) = (status_code \<noteq> 200 \<or> strip body = [])"

fun search_failed :: "search_hit list option reply \<Rightarrow> bool" where
  "search_failed Raised = True"
| "search_failed (Reply status_code body) = (status_code \<noteq> 200 \<or> body = None)"

fun details_failed :: "string list option reply \<Rightarrow> bool" where
  "details_failed Raised = True"
| "details_failed (Reply status_code body) = (status_code \<noteq> 200 \<or> body = None)"

text \<open>
  The test \<^verbatim>\<open>self.tgt_url and time.time() < self.tgt_expiry\<close> of \<^verbatim>\<open>_get_tgt_url\<close>:
  the client holds a granting credential that has not expired. And: the table
  \<^verbatim>\<open>umls_cache\<close> holds the given result under the key of the term.
\<close>

definition tgt_valid :: "world \<Rightarrow> UMLSClient \<Rightarrow> bool" where
  "tgt_valid w c = (truthy (tgt_url c) \<and> clock w (clock_reads c) < tgt_expiry c)"

definition cached_as :: "UMLSClient \<Rightarrow> string \<Rightarrow> lookup_result \<Rightarrow> bool" where
  "cached_as c term r =
     (case map_of (cache c) (cache_key term) of None \<Rightarrow> False | Some row \<Rightarrow> row_result row = r)"

section \<open>Entity classification (fusion)\<close>

text \<open>
  \<^verbatim>\<open>MedicalNERPipeline._classify_entities\<close>. \<open>classify_candidate\<close> is the body of the
  loop up to the creation of the entity: the type, the classification confidence and
  the vocabulary code. A member of \<^verbatim>\<open>EntityType\<close> is always true as a condition, so an
  entity is created whenever a type was assigned.
\<close>

definition classify_candidate ::
  "NERConfig \<Rightarrow> world \<Rightarrow> candidate \<Rightarrow> UMLSClient \<Rightarrow> (EntityType option \<times> real \<times> string option) \<times> UMLSClient" where
  "classify_candidate cfg w cand c =
     (let (entity_type, conf) = classify (cand_text cand)
      in if entity_type = None \<or> conf < 8 / 10
         then (if ENABLE_UMLS cfg
               then (let (umls_result, c1) = lookup_term w (cand_text cand) c
                     in if conf < lr_confidence umls_result
                        then ((Some (lr_entity_type umls_result), lr_confidence umls_result,
                               lr_umls_code umls_result), c1)
                        else ((entity_type, conf, None), c1))
               else ((entity_type, conf, None), c))
         else ((entity_type, conf, None), c))"

definition make_entity :: "candidate \<Rightarrow> EntityType \<Rightarrow> real \<Rightarrow> string option \<Rightarrow> MedicalEntity" where
  "make_entity cand entity_type conf code =
     \<lparr>e_text = cand_text cand, e_type = entity_type, start_pos = cand_start cand,
      end_pos = cand_end cand, confidence = conf * score cand, umls_code = code,
      normalized_text = None, metadata = None\<rparr>"

fun classify_entities ::
  "NERConfig \<Rightarrow> world \<Rightarrow> candidate list \<Rightarrow> UMLSClient \<Rightarrow> MedicalEntity list \<times> UMLSClient" where
  "classify_entities cfg w [] c = ([], c)"
| "classify_entities cfg w (cand # candidates) c =
     (let ((entity_type, conf, code), c1) = classify_candidate cfg w cand c;
          (classified, c2) = classify_entities cfg w candidates c1
      in case entity_type of
           None \<Rightarrow> (classified, c2)
         | Some ty \<Rightarrow> (make_entity cand ty conf code # classified, c2))"

section \<open>Post-processing\<close>

text \<open>\<^verbatim>\<open>MedicalNERPipeline._normalize_drug_name\<close>.\<close>

definition brand_to_generic :: "(string \<times> string) list" where
  "brand_to_generic =
    [(''tylenol'', ''acetaminophen''), (''advil'', ''ibuprofen''), (''motrin'', ''ibuprofen''),
     (''lipitor'', ''atorvastatin''), (''zocor'', ''simvastatin''), (''prilosec'', ''omeprazole''),
     (''nexium'', ''esomeprazole'')]"

definition normalize_drug_name :: "string \<Rightarrow> string" where
  "normalize_drug_name drug_name =
     (case map_of brand_to_generic (lower drug_name) of None \<Rightarrow> drug_name | Some g \<Rightarrow> g)"

text \<open>
  \<^verbatim>\<open>MedicalNERPipeline._find_nearest_medication\<close>. The loop keeps the smallest
  distance seen so far (\<open>None\<close> for the initial infinity) and the medication that has it.
\<close>

fun nearest_loop ::
  "MedicalEntity \<Rightarrow> int option \<Rightarrow> MedicalEntity option \<Rightarrow> MedicalEntity list \<Rightarrow> MedicalEntity option" where
  "nearest_loop dosage_entity min_distance nearest_med [] = nearest_med"
| "nearest_loop dosage_entity min_distance nearest_med (med # medications) =
     (let distance = \<bar>start_pos dosage_entity - end_pos med\<bar>
      in if (case min_distance of None \<Rightarrow> True | Some d \<Rightarrow> distance < d) \<and> distance < 50
         then nearest_loop dosage_entity (Some distance) (Some med) medications
         else nearest_loop dosage_entity min_distance nearest_med medications)"

definition find_nearest_medication :: "MedicalEntity \<Rightarrow> MedicalEntity list \<Rightarrow> MedicalEntity option" where
  "find_nearest_medication dosage_entity all_entities =
     (let medications = filter (\<lambda>e. e_type e = MEDICATION) all_entities
      in if medications = [] then None else nearest_loop dosage_entity None None medications)"

text \<open>A slice \<^verbatim>\<open>s[a:b]\<close> of a string; a negative index counts from the end.\<close>

definition slice_index :: "nat \<Rightarrow> int \<Rightarrow> nat" where
  "slice_index n i = (if i < 0 then nat (max 0 (int n + i)) else min n (nat i))"

definition py_slice :: "string \<Rightarrow> int \<Rightarrow> int \<Rightarrow> string" where
  "py_slice s a b = (let i = slice_index (length s) a; j = slice_index (length s) b in take (j - i) (drop i s))"

text \<open>
  \<^verbatim>\<open>MedicalNERPipeline._postprocess_entities\<close>. The entities are changed in place, so
  the step for the entity at index \<open>i\<close> reads the list as the earlier steps left it.
\<close>

definition postprocess_entity :: "string \<Rightarrow> MedicalEntity list \<Rightarrow> MedicalEntity \<Rightarrow> MedicalEntity" where
  "postprocess_entity original_text entities entity =
     (let e1 = (if e_type entity = MEDICATION
                then entity\<lparr>normalized_text := Some (normalize_drug_name (e_text entity))\<rparr>
                else entity);
          e2 = (if e_type e1 = DOSAGE
                then (case find_nearest_medication e1 entities of
                        None \<Rightarrow> e1
                      | Some med_entity \<Rightarrow> e1\<lparr>metadata := Some [(''linked_medication'', e_text med_entity)]\<rparr>)
                else e1);
          context_start = max 0 (start_pos e2 - 20);
          context_end = min (int (length original_text)) (end_pos e2 + 20)
      in set_metadata ''context'' (py_slice original_text context_start context_end) e2)"

definition postprocess_step :: "string \<Rightarrow> MedicalEntity list \<Rightarrow> nat \<Rightarrow> MedicalEntity list" where
  "postprocess_step original_text es i = es[i := postprocess_entity original_text es (es ! i)]"

definition postprocess_entities :: "MedicalEntity list \<Rightarrow> string \<Rightarrow> MedicalEntity list" where
  "postprocess_entities entities original_text =
     foldl (postprocess_step original_text) entities [0..<length entities]"

text \<open>The fields of an entity that post-processing reads and never changes.\<close>

definition core :: "MedicalEntity \<Rightarrow> string \<times> EntityType \<times> int \<times> int" where
  "core e = (e_text e, e_type e, start_pos e, end_pos e)"

section \<open>Pipeline\<close>

text \<open>\<^verbatim>\<open>MedicalNERPipeline.extract_entities\<close>.\<close>

definition extract_entities ::
  "NERConfig \<Rightarrow> world \<Rightarrow> tagger \<Rightarrow> string \<Rightarrow> UMLSClient \<Rightarrow> MedicalEntity list \<times> UMLSClient" where
  "extract_entities cfg w ner_pipeline txt c =
     (let preprocessed_text = preprocess_text txt;
          entity_candidates = extract_entity_candidates ner_pipeline preprocessed_text;
          (classified_entities, c1) = classify_entities cfg w entity_candidates c;
          final_entities = postprocess_entities classified_entities txt;
          filtered_entities = filter_by_confidence cfg final_entities
      in (filtered_entities, c1))"

text \<open>
  \<^verbatim>\<open>MedicalEntity.to_dict\<close> keeps the fields and rounds the confidence. The entry of
  \<open>medications_with_dosage\<close> for a medication, a dictionary keyed by the surface text
  in insertion order.
\<close>

definition to_dict :: "world \<Rightarrow> MedicalEntity \<Rightarrow> MedicalEntity" where
  "to_dict w e = e\<lparr>confidence := round3 w (confidence e)\<rparr>"

record medication_record =
  name :: string
  normalized_name :: "string option"
  med_confidence :: real
  position :: "int \<times> int"
  dosage :: "string option"
  med_umls_code :: "string option"

record grouped_entities =
  diseases :: "MedicalEntity list"
  symptoms :: "MedicalEntity list"
  medications :: "(string \<times> medication_record) list"
  dosages :: "MedicalEntity list"
  anatomy :: "MedicalEntity list"
  unclassified :: "MedicalEntity list"

definition empty_groups :: grouped_entities where
  "empty_groups = \<lparr>diseases = [], symptoms = [], medications = [], dosages = [], anatomy = [],
                    unclassified = []\<rparr>"

text \<open>One round of the grouping loop of \<^verbatim>\<open>MedicalNERPipeline.process_document\<close>.\<close>

definition linked_medication :: "MedicalEntity \<Rightarrow> string option" where
  "linked_medication entity =
     (case metadata entity of
        None \<Rightarrow> None
      | Some m \<Rightarrow> if m = [] then None else map_of m ''linked_medication'')"

definition group_entity :: "world \<Rightarrow> grouped_entities \<Rightarrow> MedicalEntity \<Rightarrow> grouped_entities" where
  "group_entity w g entity =
     (case e_type entity of
        DISEASE \<Rightarrow> g\<lparr>diseases := diseases g @ [to_dict w entity]\<rparr>
      | SYMPTOM \<Rightarrow> g\<lparr>symptoms := symptoms g @ [to_dict w entity]\<rparr>
      | MEDICATION \<Rightarrow>
          g\<lparr>medications := AList.update (e_text entity)
               \<lparr>name = e_text entity, normalized_name = normalized_text entity,
                med_confidence = confidence entity,
                position = (start_pos entity, end_pos entity),
                dosage = None, med_umls_code = umls_code entity\<rparr> (medications g)\<rparr>
      | DOSAGE \<Rightarrow>
          (let linked_med = linked_medication entity
           in if truthy linked_med \<and> map_of (medications g) (the linked_med) \<noteq> None
              then g\<lparr>medications := AList.map_entry (the linked_med)
                                        (\<lambda>r. r\<lparr>dosage := Some (e_text entity)\<rparr>) (medications g)\<rparr>
              else g\<lparr>dosages := dosages g @ [to_dict w entity]\<rparr>)
      | ANATOMY \<Rightarrow> g\<lparr>anatomy := anatomy g @ [to_dict w entity]\<rparr>
      | UNKNOWN \<Rightarrow> g\<lparr>unclassified := unclassified g @ [to_dict w entity]\<rparr>)"

definition group_entities :: "world \<Rightarrow> MedicalEntity list \<Rightarrow> grouped_entities" where
  "group_entities w entities = foldl (group_entity w) empty_groups entities"

text \<open>
  The result of \<^verbatim>\<open>process_document\<close>, without the wall-clock field
  \<^verbatim>\<open>processing_time_ms\<close>.
\<close>

record document_result =
  status :: string
  text_length :: nat
  total_entities :: nat
  entities :: grouped_entities
  auto_accepted :: nat
  needs_review :: nat
  high :: nat
  medium :: nat
  low :: nat

definition review_status :: "MedicalEntity \<Rightarrow> string option" where
  "review_status e = (case metadata e of None \<Rightarrow> None | Some m \<Rightarrow> map_of m ''review_status'')"

definition process_document ::
  "NERConfig \<Rightarrow> world \<Rightarrow> tagger \<Rightarrow> string \<Rightarrow> UMLSClient \<Rightarrow> document_result \<times> UMLSClient" where
  "process_document cfg w ner_pipeline txt c =
     (let (es, c1) = extract_entities cfg w ner_pipeline txt c
      in (\<lparr>status = ''success'', text_length = length txt, total_entities = length es,
           entities = group_entities w es,
           auto_accepted = length (filter (\<lambda>e. review_status e = Some ''auto_accepted'') es),
           needs_review = length (filter (\<lambda>e. review_status e = Some ''needs_review'') es),
           high = length (filter (\<lambda>e. 9 / 10 \<le> confidence e) es),
           medium = length (filter (\<lambda>e. 7 / 10 \<le> confidence e \<and> confidence e < 9 / 10) es),
           low = length (filter (\<lambda>e. confidence e < 7 / 10) es)\<rparr>, c1))"

section \<open>Sample inputs\<close>

text \<open>
  The sample worlds round the exact value to the nearest multiple of 1/1000 (to the
  even one at a tie). On the values that the sample runs below round, this is what
  \<^verbatim>\<open>round(x, 3)\<close> returns: 0.5, 0.54, 0.6, 0.76, 0.855, 0.9 and 1 are multiples of
  1/1000 and come back unchanged, and 0.7225 (the product \<^verbatim>\<open>0.85 * 0.85\<close>, which the
  double arithmetic computes as 0.7224999999999999) gives 0.722.
\<close>

definition nearest_thousandth :: "real \<Rightarrow> real" where
  "nearest_thousandth x =
     (let y = x * 1000; f = \<lfloor>y\<rfloor>; d = y - of_int f
      in of_int (if d < 1 / 2 then f else if 1 / 2 < d then f + 1
                 else if even f then f else f + 1) / 1000)"

text \<open>
  A world in which the environment holds no API key and every request raises, and a
  client as \<^verbatim>\<open>UMLSClient.__init__\<close> leaves it, with an empty cache.
\<close>

definition offline_world :: world where
  "offline_world =
     \<lparr>environ_api_key = None, clock = (\<lambda>n. 0), auth_post = (\<lambda>n k. Raised),
      ticket_post = (\<lambda>n u. Raised), search_get = (\<lambda>n t s e. Raised),
      concept_get = (\<lambda>n cui t. Raised), round3 = nearest_thousandth\<rparr>"

definition fresh_client :: UMLSClient where
  "fresh_client =
     \<lparr>api_key = [], use_cache = True, tgt_url = None, tgt_expiry = 0, cache = [],
      requests = 0, clock_reads = 0\<rparr>"

definition pain_candidate :: candidate where
  "pain_candidate = \<lparr>cand_text = ''pain'', cand_start = 8, cand_end = 12, score = 85 / 100\<rparr>"

definition pain_entity :: MedicalEntity where
  "pain_entity =
     \<lparr>e_text = ''pain'', e_type = SYMPTOM, start_pos = 8, end_pos = 12,
      confidence = 95 / 100 * (85 / 100), umls_code = None, normalized_text = None,
      metadata = None\<rparr>"

text \<open>
  A medication that ends at offset 50, with a dosage that starts at offset 52 and one
  that starts at offset 150.
\<close>

definition lisinopril_text :: string where
  "lisinopril_text = ''The patient takes every morning an oral lisinopril, 10mg and rests''"

definition lisinopril_entity :: MedicalEntity where
  "lisinopril_entity =
     \<lparr>e_text = ''lisinopril'', e_type = MEDICATION, start_pos = 40, end_pos = 50,
      confidence = 855 / 1000, umls_code = None, normalized_text = None, metadata = None\<rparr>"

definition dosage_at :: "int \<Rightarrow> MedicalEntity" where
  "dosage_at i =
     \<lparr>e_text = ''10mg'', e_type = DOSAGE, start_pos = i, end_pos = i + 4,
      confidence = 76 / 100, umls_code = None, normalized_text = None, metadata = None\<rparr>"

text \<open>A text in which no two neighbouring characters are both whitespace.\<close>

fun single_spaced :: "string \<Rightarrow> bool" where
  "single_spaced (a # b # s) = (\<not> (is_space a \<and> is_space b) \<and> single_spaced (b # s))"
| "single_spaced s = True"

text \<open>
  A world in which the service answers every request: the key is valid, the search for
  any term finds the concept \<^verbatim>\<open>C0004057\<close> named \<^verbatim>\<open>aspirin\<close>, whose semantic type is
  \<^verbatim>\<open>T121\<close>. A second world in which the concept-detail request raises. A client
  created with \<^verbatim>\<open>use_cache=False\<close>, as \<^verbatim>\<open>tests/umls_test.py\<close> creates it.
\<close>

definition live_world :: world where
  "live_world =
     \<lparr>environ_api_key = Some ''key'', clock = (\<lambda>n. 1000),
      auth_post = (\<lambda>n k. Reply 201 (Some ''https://utslogin.nlm.nih.gov/cas/v1/api-key/TGT-1'')),
      ticket_post = (\<lambda>n u. Reply 200 ''ST-1''),
      search_get = (\<lambda>n t s e. Reply 200 (Some [Hit ''C0004057'' ''aspirin''])),
      concept_get = (\<lambda>n cui t. Reply 200
         (Some [''https://uts-ws.nlm.nih.gov/rest/semantic-network/2025AA/TUI/T121''])),
      round3 = nearest_thousandth\<rparr>"

definition details_down_world :: world where
  "details_down_world = live_world\<lparr>concept_get := (\<lambda>n cui t. Raised)\<rparr>"

definition uncached_client :: UMLSClient where
  "uncached_client = fresh_client\<lparr>use_cache := False\<rparr>"

text \<open>
  Worlds in which one kind of request fails: the credential request raises; the ticket
  request is answered with status 500; the search request is answered with status 503;
  the exact search is answered with a list whose first entry is not an object; the
  first entry found has a name that is not a string. The texts of the exceptions are
  placeholders.
\<close>

definition auth_down_world :: world where
  "auth_down_world = live_world\<lparr>auth_post := (\<lambda>n k. Raised)\<rparr>"

definition ticket_down_world :: world where
  "ticket_down_world = live_world\<lparr>ticket_post := (\<lambda>n u. Reply 500 [])\<rparr>"

definition search_down_world :: world where
  "search_down_world = live_world\<lparr>search_get := (\<lambda>n t s e. Reply 503 None)\<rparr>"

definition garbled_world :: world where
  "garbled_world =
     live_world\<lparr>search_get := (\<lambda>n t s e. Reply 200
        (Some [NotDict ''get'', Hit ''C0004057'' ''aspirin'']))\<rparr>"

definition nameless_world :: world where
  "nameless_world =
     live_world\<lparr>search_get := (\<lambda>n t s e. Reply 200 (Some [BadName ''C0004057'' ''lower'']))\<rparr>"

text \<open>
  Worlds in which the exact search finds nothing and the approximate search raises, or
  is answered with a list whose first entry is not an object.
\<close>

definition approx_down_world :: world where
  "approx_down_world =
     live_world\<lparr>search_get := (\<lambda>n t s e. if e then Reply 200 (Some []) else Raised)\<rparr>"

definition approx_garbled_world :: world where
  "approx_garbled_world =
     live_world\<lparr>search_get := (\<lambda>n t s e. if e then Reply 200 (Some [])
                                          else Reply 200 (Some [NotDict ''get'']))\<rparr>"

text \<open>A candidate that no rule pattern matches, found before \<open>pain_candidate\<close>.\<close>

definition asa_candidate :: candidate where
  "asa_candidate = \<lparr>cand_text = ''asa'', cand_start = 0, cand_end = 3, score = 8 / 10\<rparr>"

section \<open>Properties\<close>

declare finditer_from.simps [simp del]
declare last_part.simps [simp del]

subsection \<open>Confidence gate\<close>





lemma filter_by_confidence_reject:
  "filter_by_confidence (cfg\<lparr>REJECT_THRESHOLD := r\<rparr>) es = filter_by_confidence cfg es"
  by (induction es) auto

lemma classify_candidate_reject:
  "classify_candidate (cfg\<lparr>REJECT_THRESHOLD := r\<rparr>) w cand c = classify_candidate cfg w cand c"
  by (simp add: classify_candidate_def split: prod.splits)

lemma classify_entities_reject:
  "classify_entities (cfg\<lparr>REJECT_THRESHOLD := r\<rparr>) w cands c = classify_entities cfg w cands c"
  by (induction cands arbitrary: c) (simp_all add: classify_candidate_reject)

text \<open>
  Claim C9. Changing only \<^verbatim>\<open>REJECT_THRESHOLD\<close> in the configuration changes neither
  the output of the confidence filter, nor that of \<^verbatim>\<open>extract_entities\<close>, nor that of
  \<^verbatim>\<open>process_document\<close>: no stage of the pipeline reads it.
\<close>

theorem reject_threshold_never_read:
  "filter_by_confidence (cfg\<lparr>REJECT_THRESHOLD := r\<rparr>) es = filter_by_confidence cfg es
   \<and> extract_entities (cfg\<lparr>REJECT_THRESHOLD := r\<rparr>) w ner_pipeline txt c
       = extract_entities cfg w ner_pipeline txt c
   \<and> process_document (cfg\<lparr>REJECT_THRESHOLD := r\<rparr>) w ner_pipeline txt c
       = process_document cfg w ner_pipeline txt c"
  by (simp add: filter_by_confidence_reject classify_entities_reject extract_entities_def
        process_document_def)

subsection \<open>Confidence fusion\<close>

lemma concat_map_memD: "e \<in> set (concat (map f xs)) \<Longrightarrow> \<exists>x\<in>set xs. e \<in> set (f x)"
  by auto

lemma classify_entities_snoc:
  "classify_entities cfg w (xs @ [x]) c =
     (case classify_candidate cfg w x (snd (classify_entities cfg w xs c)) of
        ((None, conf, code), c2) \<Rightarrow> (fst (classify_entities cfg w xs c), c2)
      | ((Some ty, conf, code), c2) \<Rightarrow>
          (fst (classify_entities cfg w xs c) @ [make_entity x ty conf code], c2))"
proof (induction xs arbitrary: c)
  case Nil
  show ?case by (simp split: prod.splits option.splits)
next
  case (Cons a xs)
  show ?case by (simp add: Cons.IH split: prod.splits option.splits)
qed

lemma classify_entities_concat:
  "fst (classify_entities cfg w cands c) =
     concat (map (\<lambda>i. case fst (classify_candidate cfg w (cands ! i)
                                   (snd (classify_entities cfg w (take i cands) c))) of
                           (None, conf, code) \<Rightarrow> []
                         | (Some ty, conf, code) \<Rightarrow> [make_entity (cands ! i) ty conf code])
                 [0..<length cands])"
proof (induction cands rule: rev_induct)
  case Nil
  show ?case by simp
next
  case (snoc x xs)
  define ent where "ent = (\<lambda>cand c0. case fst (classify_candidate cfg w cand c0) of
                           (None, conf, code) \<Rightarrow> []
                         | (Some ty, conf, code) \<Rightarrow> [make_entity cand ty conf code])"
  define F where "F = (\<lambda>i. ent ((xs @ [x]) ! i)
                              (snd (classify_entities cfg w (take i (xs @ [x])) c)))"
  define G where "G = (\<lambda>i. ent (xs ! i) (snd (classify_entities cfg w (take i xs) c)))"
  have old: "map F [0..<length xs] = map G [0..<length xs]"
    by (rule map_cong) (simp_all add: F_def G_def nth_append)
  have new: "F (length xs) = ent x (snd (classify_entities cfg w xs c))"
    by (simp add: F_def)
  have split: "concat (map F [0..<length (xs @ [x])]) = concat (map F [0..<length xs]) @ F (length xs)"
    by simp
  have last: "fst (classify_entities cfg w (xs @ [x]) c)
            = fst (classify_entities cfg w xs c) @ ent x (snd (classify_entities cfg w xs c))"
    by (simp add: classify_entities_snoc ent_def split: prod.splits option.splits)
  from snoc.IH have ih: "fst (classify_entities cfg w xs c) = concat (map G [0..<length xs])"
    by (simp add: ent_def G_def)
  have "fst (classify_entities cfg w (xs @ [x]) c) = concat (map F [0..<length (xs @ [x])])"
    unfolding split old new last ih ..
  then show ?case by (simp add: ent_def F_def)
qed

text \<open>
  Claim C1. The fusion step stores exactly one entity for every candidate to which it
  assigns a type, in the order of the candidates, and none for the others (the client
  state in which a candidate is classified is the one the candidates before it leave).
  The entity of a typed candidate carries as confidence exactly the classification
  confidence times the detection score of that candidate, and conversely every stored
  entity is the entity of a typed candidate. When both factors are in [0, 1] the stored
  confidence is in [0, 1] as well.
\<close>

theorem fused_confidence:
  assumes "classify_entities cfg w cands c = (es, c')"
  shows
    "es = concat (map (\<lambda>i. case fst (classify_candidate cfg w (cands ! i)
                                        (snd (classify_entities cfg w (take i cands) c))) of
                                (None, conf, code) \<Rightarrow> []
                              | (Some ty, conf, code) \<Rightarrow> [make_entity (cands ! i) ty conf code])
                      [0..<length cands])
   \<and> (\<forall>i<length cands. \<forall>ty conf code.
         fst (classify_candidate cfg w (cands ! i) (snd (classify_entities cfg w (take i cands) c)))
           = (Some ty, conf, code)
         \<longrightarrow> make_entity (cands ! i) ty conf code \<in> set es
           \<and> confidence (make_entity (cands ! i) ty conf code) = conf * score (cands ! i)
           \<and> (0 \<le> conf \<and> conf \<le> 1 \<and> 0 \<le> score (cands ! i) \<and> score (cands ! i) \<le> 1
                \<longrightarrow> 0 \<le> confidence (make_entity (cands ! i) ty conf code)
                  \<and> confidence (make_entity (cands ! i) ty conf code) \<le> 1))
   \<and> (\<forall>e\<in>set es. \<exists>i<length cands. \<exists>ty conf code.
         fst (classify_candidate cfg w (cands ! i) (snd (classify_entities cfg w (take i cands) c)))
           = (Some ty, conf, code)
         \<and> e = make_entity (cands ! i) ty conf code
         \<and> confidence e = conf * score (cands ! i)
         \<and> (0 \<le> conf \<and> conf \<le> 1 \<and> 0 \<le> score (cands ! i) \<and> score (cands ! i) \<le> 1
              \<longrightarrow> 0 \<le> confidence e \<and> confidence e \<le> 1))"
proof -
  let ?r = "\<lambda>i. fst (classify_candidate cfg w (cands ! i)
                       (snd (classify_entities cfg w (take i cands) c)))"
  let ?ent = "\<lambda>i. case ?r i of (None, conf, code) \<Rightarrow> []
                  | (Some ty, conf, code) \<Rightarrow> [make_entity (cands ! i) ty conf code]"
  from assms classify_entities_concat [of cfg w cands c]
  have 1: "es = concat (map ?ent [0..<length cands])" by simp
  have bound: "0 \<le> conf \<and> conf \<le> 1 \<and> 0 \<le> score cand \<and> score cand \<le> 1
                \<longrightarrow> 0 \<le> confidence (make_entity cand ty conf code)
                  \<and> confidence (make_entity cand ty conf code) \<le> 1" for cand ty conf code
    by (auto simp: make_entity_def intro: mult_le_one)
  have prod: "confidence (make_entity cand ty conf code) = conf * score cand" for cand ty conf code
    by (simp add: make_entity_def)
  have 2: "\<forall>i<length cands. \<forall>ty conf code.
         ?r i = (Some ty, conf, code)
         \<longrightarrow> make_entity (cands ! i) ty conf code \<in> set es
           \<and> confidence (make_entity (cands ! i) ty conf code) = conf * score (cands ! i)
           \<and> (0 \<le> conf \<and> conf \<le> 1 \<and> 0 \<le> score (cands ! i) \<and> score (cands ! i) \<le> 1
                \<longrightarrow> 0 \<le> confidence (make_entity (cands ! i) ty conf code)
                  \<and> confidence (make_entity (cands ! i) ty conf code) \<le> 1)"
  proof (intro allI impI)
    fix i ty conf code
    assume i: "i < length cands" and r: "?r i = (Some ty, conf, code)"
    from r have "make_entity (cands ! i) ty conf code \<in> set (?ent i)" by simp
    moreover from i have "i \<in> set [0..<length cands]" by simp
    ultimately have "make_entity (cands ! i) ty conf code \<in> set es"
      unfolding 1 set_concat by (intro UN_I [of "?ent i"]) simp_all
    with prod [of "cands ! i" ty conf code] bound [of conf "cands ! i" ty code]
    show "make_entity (cands ! i) ty conf code \<in> set es
           \<and> confidence (make_entity (cands ! i) ty conf code) = conf * score (cands ! i)
           \<and> (0 \<le> conf \<and> conf \<le> 1 \<and> 0 \<le> score (cands ! i) \<and> score (cands ! i) \<le> 1
                \<longrightarrow> 0 \<le> confidence (make_entity (cands ! i) ty conf code)
                  \<and> confidence (make_entity (cands ! i) ty conf code) \<le> 1)"
      by blast
  qed
  have 3: "\<forall>e\<in>set es. \<exists>i<length cands. \<exists>ty conf code.
         ?r i = (Some ty, conf, code)
         \<and> e = make_entity (cands ! i) ty conf code
         \<and> confidence e = conf * score (cands ! i)
         \<and> (0 \<le> conf \<and> conf \<le> 1 \<and> 0 \<le> score (cands ! i) \<and> score (cands ! i) \<le> 1
              \<longrightarrow> 0 \<le> confidence e \<and> confidence e \<le> 1)"
  proof
    fix e
    assume "e \<in> set es"
    then have "e \<in> set (concat (map ?ent [0..<length cands]))" unfolding 1 .
    then have "\<exists>i\<in>set [0..<length cands]. e \<in> set (?ent i)" by (rule concat_map_memD)
    then obtain i where "i \<in> set [0..<length cands]" and e: "e \<in> set (?ent i)" by blast
    then have i: "i < length cands" by simp
    obtain ety conf code where r: "?r i = (ety, conf, code)" by (metis prod_cases3)
    with e obtain ty where ty: "ety = Some ty" and m: "e = make_entity (cands ! i) ty conf code"
      by (cases ety) simp_all
    from i r ty m prod [of "cands ! i" ty conf code] bound [of conf "cands ! i" ty code]
    show "\<exists>i<length cands. \<exists>ty conf code.
         ?r i = (Some ty, conf, code)
         \<and> e = make_entity (cands ! i) ty conf code
         \<and> confidence e = conf * score (cands ! i)
         \<and> (0 \<le> conf \<and> conf \<le> 1 \<and> 0 \<le> score (cands ! i) \<and> score (cands ! i) \<le> 1
              \<longrightarrow> 0 \<le> confidence e \<and> confidence e \<le> 1)"
      by blast
  qed
  from 1 2 3 show ?thesis by (intro conjI)
qed

theorem fused_confidence_witness:
  "fst (classify_entities default_config live_world [asa_candidate, pain_candidate] fresh_client)
     = [\<lparr>e_text = ''asa'', e_type = MEDICATION, start_pos = 0, end_pos = 3,
         confidence = 54 / 100 * (8 / 10), umls_code = Some ''C0004057'',
         normalized_text = None, metadata = None\<rparr>,
        pain_entity]
   \<and> make_entity asa_candidate MEDICATION (54 / 100) (Some ''C0004057'')
       \<in> set (fst (classify_entities default_config live_world
                      [asa_candidate, pain_candidate] fresh_client))
   \<and> confidence (make_entity asa_candidate MEDICATION (54 / 100) (Some ''C0004057''))
       = 54 / 100 * score asa_candidate
   \<and> 0 \<le> confidence (make_entity asa_candidate MEDICATION (54 / 100) (Some ''C0004057''))
   \<and> confidence (make_entity asa_candidate MEDICATION (54 / 100) (Some ''C0004057'')) \<le> 1
   \<and> make_entity pain_candidate SYMPTOM (95 / 100) None
       \<in> set (fst (classify_entities default_config live_world
                      [asa_candidate, pain_candidate] fresh_client))
   \<and> confidence (make_entity pain_candidate SYMPTOM (95 / 100) None)
       = 95 / 100 * score pain_candidate
   \<and> 0 \<le> confidence (make_entity pain_candidate SYMPTOM (95 / 100) None)
   \<and> confidence (make_entity pain_candidate SYMPTOM (95 / 100) None) \<le> 1"
proof -
  let ?cands = "[asa_candidate, pain_candidate]"
  let ?es = "fst (classify_entities default_config live_world ?cands fresh_client)"
  let ?c' = "snd (classify_entities default_config live_world ?cands fresh_client)"
  have h: "classify_entities default_config live_world ?cands fresh_client = (?es, ?c')" by simp
  have v: "?es = [\<lparr>e_text = ''asa'', e_type = MEDICATION, start_pos = 0, end_pos = 3,
         confidence = 54 / 100 * (8 / 10), umls_code = Some ''C0004057'',
         normalized_text = None, metadata = None\<rparr>,
        pain_entity]"
    by code_simp
  have l0: "0 < length ?cands" and l1: "Suc 0 < length ?cands" by simp_all
  have r0: "fst (classify_candidate default_config live_world (?cands ! 0)
                  (snd (classify_entities default_config live_world (take 0 ?cands) fresh_client)))
              = (Some MEDICATION, 54 / 100, Some ''C0004057'')"
    by code_simp
  have r1: "fst (classify_candidate default_config live_world (?cands ! Suc 0)
                  (snd (classify_entities default_config live_world (take (Suc 0) ?cands)
                          fresh_client)))
              = (Some SYMPTOM, 95 / 100, None)"
    by code_simp
  have b0: "0 \<le> (54 / 100 :: real) \<and> (54 / 100 :: real) \<le> 1
            \<and> 0 \<le> score (?cands ! 0) \<and> score (?cands ! 0) \<le> 1"
    by (simp add: asa_candidate_def)
  have b1: "0 \<le> (95 / 100 :: real) \<and> (95 / 100 :: real) \<le> 1
            \<and> 0 \<le> score (?cands ! Suc 0) \<and> score (?cands ! Suc 0) \<le> 1"
    by (simp add: pain_candidate_def)
  note F = fused_confidence [OF h, THEN conjunct2, THEN conjunct1]
  note F0 = F [THEN spec, THEN mp, OF l0, THEN spec, THEN spec, THEN spec, THEN mp, OF r0]
  note F1 = F [THEN spec, THEN mp, OF l1, THEN spec, THEN spec, THEN spec, THEN mp, OF r1]
  from F0 [THEN conjunct1] have m0: "make_entity asa_candidate MEDICATION (54 / 100)
                                       (Some ''C0004057'') \<in> set ?es" by simp
  from F0 [THEN conjunct2, THEN conjunct1]
  have p0: "confidence (make_entity asa_candidate MEDICATION (54 / 100) (Some ''C0004057''))
              = 54 / 100 * score asa_candidate" by simp
  from F0 [THEN conjunct2, THEN conjunct2, THEN mp, OF b0]
  have q0: "0 \<le> confidence (make_entity asa_candidate MEDICATION (54 / 100) (Some ''C0004057''))"
    and q0': "confidence (make_entity asa_candidate MEDICATION (54 / 100) (Some ''C0004057'')) \<le> 1"
    by simp_all
  from F1 [THEN conjunct1] have m1: "make_entity pain_candidate SYMPTOM (95 / 100) None \<in> set ?es"
    by simp
  from F1 [THEN conjunct2, THEN conjunct1]
  have p1: "confidence (make_entity pain_candidate SYMPTOM (95 / 100) None)
              = 95 / 100 * score pain_candidate" by simp
  from F1 [THEN conjunct2, THEN conjunct2, THEN mp, OF b1]
  have q1: "0 \<le> confidence (make_entity pain_candidate SYMPTOM (95 / 100) None)"
    and q1': "confidence (make_entity pain_candidate SYMPTOM (95 / 100) None) \<le> 1"
    by simp_all
  show ?thesis by (intro conjI) (rule v m0 p0 q0 q0' m1 p1 q1 q1')+
qed

subsection \<open>Dosage linking\<close>

lemma nearest_loop_spec:
  assumes "(md = None \<and> nm = None) \<or>
           (\<exists>m. nm = Some m \<and> md = Some \<bar>start_pos d - end_pos m\<bar> \<and> \<bar>start_pos d - end_pos m\<bar> < 50)"
  shows "case nearest_loop d md nm meds of
           None \<Rightarrow> nm = None \<and> (\<forall>m\<in>set meds. 50 \<le> \<bar>start_pos d - end_pos m\<bar>)
         | Some m \<Rightarrow> \<bar>start_pos d - end_pos m\<bar> < 50 \<and> (m \<in> set meds \<or> nm = Some m)
              \<and> (\<forall>m'\<in>set meds. \<bar>start_pos d - end_pos m\<bar> \<le> \<bar>start_pos d - end_pos m'\<bar>)
              \<and> (\<forall>m0. nm = Some m0 \<longrightarrow> \<bar>start_pos d - end_pos m\<bar> \<le> \<bar>start_pos d - end_pos m0\<bar>)"
  using assms
proof (induction meds arbitrary: md nm)
  case Nil
  then show ?case by (auto split: option.splits)
next
  case (Cons med meds)
  let ?dist = "\<bar>start_pos d - end_pos med\<bar>"
  show ?case
  proof (cases "(case md of None \<Rightarrow> True | Some x \<Rightarrow> ?dist < x) \<and> ?dist < 50")
    case True
    then have step: "nearest_loop d md nm (med # meds) = nearest_loop d (Some ?dist) (Some med) meds"
      by (simp add: Let_def)
    have "case nearest_loop d (Some ?dist) (Some med) meds of
           None \<Rightarrow> Some med = None \<and> (\<forall>m\<in>set meds. 50 \<le> \<bar>start_pos d - end_pos m\<bar>)
         | Some m \<Rightarrow> \<bar>start_pos d - end_pos m\<bar> < 50 \<and> (m \<in> set meds \<or> Some med = Some m)
              \<and> (\<forall>m'\<in>set meds. \<bar>start_pos d - end_pos m\<bar> \<le> \<bar>start_pos d - end_pos m'\<bar>)
              \<and> (\<forall>m0. Some med = Some m0 \<longrightarrow> \<bar>start_pos d - end_pos m\<bar> \<le> \<bar>start_pos d - end_pos m0\<bar>)"
      by (rule Cons.IH) (use True in simp)
    with True Cons.prems show ?thesis
      unfolding step by (cases "nearest_loop d (Some ?dist) (Some med) meds") (auto split: option.splits)
  next
    case False
    then have step: "nearest_loop d md nm (med # meds) = nearest_loop d md nm meds"
      by (simp only: nearest_loop.simps Let_def if_False)
    have "case nearest_loop d md nm meds of
           None \<Rightarrow> nm = None \<and> (\<forall>m\<in>set meds. 50 \<le> \<bar>start_pos d - end_pos m\<bar>)
         | Some m \<Rightarrow> \<bar>start_pos d - end_pos m\<bar> < 50 \<and> (m \<in> set meds \<or> nm = Some m)
              \<and> (\<forall>m'\<in>set meds. \<bar>start_pos d - end_pos m\<bar> \<le> \<bar>start_pos d - end_pos m'\<bar>)
              \<and> (\<forall>m0. nm = Some m0 \<longrightarrow> \<bar>start_pos d - end_pos m\<bar> \<le> \<bar>start_pos d - end_pos m0\<bar>)"
      by (rule Cons.IH) (rule Cons.prems)
    with False Cons.prems show ?thesis
      unfolding step by (cases "nearest_loop d md nm meds") (auto split: option.splits)
  qed
qed

lemma find_nearest_medication_spec:
  "case find_nearest_medication d es of
     None \<Rightarrow> (\<forall>m\<in>set es. e_type m = MEDICATION \<longrightarrow> 50 \<le> \<bar>start_pos d - end_pos m\<bar>)
   | Some m \<Rightarrow> m \<in> set es \<and> e_type m = MEDICATION \<and> \<bar>start_pos d - end_pos m\<bar> < 50
        \<and> (\<forall>m'\<in>set es. e_type m' = MEDICATION \<longrightarrow>
              \<bar>start_pos d - end_pos m\<bar> \<le> \<bar>start_pos d - end_pos m'\<bar>)"
proof -
  let ?meds = "filter (\<lambda>e. e_type e = MEDICATION) es"
  show ?thesis
    using nearest_loop_spec [where md = None and nm = None and d = d and meds = ?meds]
    by (cases "nearest_loop d None None ?meds")
       (auto simp: find_nearest_medication_def Let_def filter_empty_conv)
qed

lemma nearest_loop_core:
  "map core ms = map core ms' \<Longrightarrow> map_option core nm = map_option core nm' \<Longrightarrow>
   map_option core (nearest_loop d md nm ms) = map_option core (nearest_loop d md nm' ms')"
proof (induction ms arbitrary: ms' md nm nm')
  case Nil
  then show ?case by simp
next
  case (Cons m ms)
  then obtain m' ms2 where ms': "ms' = m' # ms2" and m: "core m = core m'" and r: "map core ms = map core ms2"
    by (cases ms') auto
  from m have e: "end_pos m = end_pos m'" by (simp add: core_def)
  show ?case
    unfolding ms' using Cons.IH [OF r] Cons.prems(2) m e
    by (simp add: Let_def)
qed

lemma filter_core:
  "map core es = map core es' \<Longrightarrow>
   map core (filter (\<lambda>e. e_type e = MEDICATION) es) = map core (filter (\<lambda>e. e_type e = MEDICATION) es')"
proof (induction es arbitrary: es')
  case Nil
  then show ?case by simp
next
  case (Cons a es)
  then obtain a' es2 where es': "es' = a' # es2" and a: "core a = core a'"
    and r: "map core es = map core es2"
    by (cases es') auto
  from a have "e_type a = e_type a'" by (simp add: core_def)
  with Cons.IH [OF r] a show ?case unfolding es' by simp
qed

lemma find_nearest_medication_core:
  assumes "map core es = map core es'"
  shows "map_option core (find_nearest_medication d es) = map_option core (find_nearest_medication d es')"
proof -
  from filter_core [OF assms] have f: "map core (filter (\<lambda>e. e_type e = MEDICATION) es)
      = map core (filter (\<lambda>e. e_type e = MEDICATION) es')" .
  then have "(filter (\<lambda>e. e_type e = MEDICATION) es = []) = (filter (\<lambda>e. e_type e = MEDICATION) es' = [])"
    by (metis map_is_Nil_conv)
  with nearest_loop_core [OF f, of None None d None] show ?thesis
    by (simp add: find_nearest_medication_def Let_def)
qed

lemma core_postprocess_entity: "core (postprocess_entity otext es e) = core e"
  by (simp add: postprocess_entity_def Let_def set_metadata_def core_def split: option.splits)

lemma linked_postprocess_entity:
  assumes "e_type e = DOSAGE" and "metadata e = None"
  shows "linked_medication (postprocess_entity otext es e) = map_option e_text (find_nearest_medication e es)"
  using assms
  by (simp add: postprocess_entity_def Let_def set_metadata_def linked_medication_def
        metadata_or_empty_def update_conv' split: option.splits)

lemma pp_prefix:
  "k \<le> length es \<Longrightarrow>
   length (foldl (postprocess_step otext) es [0..<k]) = length es
   \<and> map core (foldl (postprocess_step otext) es [0..<k]) = map core es
   \<and> (\<forall>j. k \<le> j \<longrightarrow> j < length es \<longrightarrow> foldl (postprocess_step otext) es [0..<k] ! j = es ! j)
   \<and> (\<forall>i<k. foldl (postprocess_step otext) es [0..<k] ! i
          = postprocess_entity otext (foldl (postprocess_step otext) es [0..<i]) (es ! i))"
proof (induction k)
  case 0
  then show ?case by simp
next
  case (Suc k)
  let ?f = "\<lambda>n. foldl (postprocess_step otext) es [0..<n]"
  from Suc have IH: "length (?f k) = length es" "map core (?f k) = map core es"
    "\<forall>j. k \<le> j \<longrightarrow> j < length es \<longrightarrow> ?f k ! j = es ! j"
    "\<forall>i<k. ?f k ! i = postprocess_entity otext (?f i) (es ! i)" by simp_all
  have st: "?f (Suc k) = (?f k)[k := postprocess_entity otext (?f k) (?f k ! k)]"
    by (simp add: postprocess_step_def)
  from Suc.prems IH(3) have kk: "?f k ! k = es ! k" by simp
  have 1: "length (?f (Suc k)) = length es" unfolding st using IH(1) by simp
  have 2: "map core (?f (Suc k)) = map core es"
  proof -
    have "map core (?f (Suc k)) = (map core (?f k))[k := core (?f k ! k)]"
      unfolding st by (simp add: map_update core_postprocess_entity)
    also have "\<dots> = map core (?f k)"
      using Suc.prems IH(1) by (metis list_update_id map_update)
    finally show ?thesis using IH(2) by simp
  qed
  have 3: "\<forall>j. Suc k \<le> j \<longrightarrow> j < length es \<longrightarrow> ?f (Suc k) ! j = es ! j"
    unfolding st using IH(3) by simp
  have 4: "\<forall>i<Suc k. ?f (Suc k) ! i = postprocess_entity otext (?f i) (es ! i)"
  proof (intro allI impI)
    fix i assume "i < Suc k"
    show "?f (Suc k) ! i = postprocess_entity otext (?f i) (es ! i)"
    proof (cases "i = k")
      case True
      with Suc.prems IH(1) kk show ?thesis unfolding st by simp
    next
      case False
      with \<open>i < Suc k\<close> have "i < k" by simp
      with IH(4) False show ?thesis unfolding st by simp
    qed
  qed
  from 1 2 3 4 show ?case by blast
qed

lemma postprocess_entities_nth:
  assumes "i < length es"
  shows "\<exists>es'. map core es' = map core es
            \<and> postprocess_entities es otext ! i = postprocess_entity otext es' (es ! i)"
proof -
  have e: "postprocess_entities es otext = foldl (postprocess_step otext) es [0..<length es]"
    by (simp add: postprocess_entities_def)
  from pp_prefix [of "length es" es otext] assms
  have a: "postprocess_entities es otext ! i = postprocess_entity otext (foldl (postprocess_step otext) es [0..<i]) (es ! i)"
    unfolding e by simp
  from pp_prefix [of i es otext] assms
  have "map core (foldl (postprocess_step otext) es [0..<i]) = map core es" by simp
  with a show ?thesis by blast
qed

text \<open>
  Claim C6. For a DOSAGE entity of the list handed to post-processing (its metadata
  still unset, as the fusion step leaves it), the link recorded under
  \<^verbatim>\<open>linked_medication\<close> is the surface text of the medication the search returns, and
  no link is recorded when the search returns none. The search returns a MEDICATION
  entity of the list whose distance \<open>|dosage start - medication end|\<close> is below 50 and
  minimal among all medications of the list; it returns none exactly when every
  medication is at distance 50 or more (or there is no medication).
\<close>

theorem dosage_linking:
  assumes "i < length es" and "e_type (es ! i) = DOSAGE" and "metadata (es ! i) = None"
  shows "linked_medication (postprocess_entities es otext ! i)
           = map_option e_text (find_nearest_medication (es ! i) es)
       \<and> (case find_nearest_medication (es ! i) es of
            None \<Rightarrow> (\<forall>m\<in>set es. e_type m = MEDICATION \<longrightarrow> 50 \<le> \<bar>start_pos (es ! i) - end_pos m\<bar>)
          | Some m \<Rightarrow> m \<in> set es \<and> e_type m = MEDICATION \<and> \<bar>start_pos (es ! i) - end_pos m\<bar> < 50
              \<and> (\<forall>m'\<in>set es. e_type m' = MEDICATION \<longrightarrow>
                    \<bar>start_pos (es ! i) - end_pos m\<bar> \<le> \<bar>start_pos (es ! i) - end_pos m'\<bar>))"
proof -
  from postprocess_entities_nth [OF assms(1)] obtain es' where
    c: "map core es' = map core es" and
    p: "postprocess_entities es otext ! i = postprocess_entity otext es' (es ! i)" by blast
  from find_nearest_medication_core [OF c, where d = "es ! i"]
  have "map_option e_text (find_nearest_medication (es ! i) es')
      = map_option e_text (find_nearest_medication (es ! i) es)"
    by (cases "find_nearest_medication (es ! i) es'"; cases "find_nearest_medication (es ! i) es")
       (auto simp: core_def)
  with linked_postprocess_entity [OF assms(2,3), where otext = otext and es = es'] p
  have "linked_medication (postprocess_entities es otext ! i)
           = map_option e_text (find_nearest_medication (es ! i) es)" by simp
  with find_nearest_medication_spec [where d = "es ! i" and es = es] show ?thesis by blast
qed

theorem dosage_linking_witness:
  "linked_medication (postprocess_entities [lisinopril_entity, dosage_at 52] lisinopril_text ! 1)
     = Some ''lisinopril''
   \<and> linked_medication (postprocess_entities [lisinopril_entity, dosage_at 150] lisinopril_text ! 1)
     = None"
proof -
  have a1: "1 < length [lisinopril_entity, dosage_at 52]" by simp
  have a2: "e_type ([lisinopril_entity, dosage_at 52] ! 1) = DOSAGE" by (simp add: dosage_at_def)
  have a3: "metadata ([lisinopril_entity, dosage_at 52] ! 1) = None" by (simp add: dosage_at_def)
  have a4: "find_nearest_medication ([lisinopril_entity, dosage_at 52] ! 1)
              [lisinopril_entity, dosage_at 52] = Some lisinopril_entity"
    by (simp add: find_nearest_medication_def dosage_at_def lisinopril_entity_def)
  have b1: "1 < length [lisinopril_entity, dosage_at 150]" by simp
  have b2: "e_type ([lisinopril_entity, dosage_at 150] ! 1) = DOSAGE" by (simp add: dosage_at_def)
  have b3: "metadata ([lisinopril_entity, dosage_at 150] ! 1) = None" by (simp add: dosage_at_def)
  have b4: "find_nearest_medication ([lisinopril_entity, dosage_at 150] ! 1)
              [lisinopril_entity, dosage_at 150] = None"
    by (simp add: find_nearest_medication_def dosage_at_def lisinopril_entity_def)
  from dosage_linking [OF a1 a2 a3, of lisinopril_text] a4
  have "linked_medication (postprocess_entities [lisinopril_entity, dosage_at 52] lisinopril_text ! 1)
          = Some ''lisinopril''"
    by (simp add: lisinopril_entity_def)
  moreover from dosage_linking [OF b1 b2 b3, of lisinopril_text] b4
  have "linked_medication (postprocess_entities [lisinopril_entity, dosage_at 150] lisinopril_text ! 1)
          = None"
    by simp
  ultimately show ?thesis by simp
qed

subsection \<open>Rule-based classifier\<close>






subsection \<open>Text normalizer\<close>

lemma literal_at_length: "literal_at ic w t \<Longrightarrow> length w \<le> length t"
  by (induction ic w t rule: literal_at.induct) (auto split: if_splits)

lemma run_length_le: "i + run_length k s i \<le> max i (length s)"
proof -
  have "length (takeWhile (in_class k) (drop i s)) \<le> length (drop i s)"
    by (rule length_takeWhile_le)
  then show ?thesis by (simp add: run_length_def)
qed

lemma ends_range:
  "e \<in> set (ends ic r s i) \<Longrightarrow> i \<le> length s \<Longrightarrow> i \<le> e \<and> e \<le> length s"
proof (induction r arbitrary: i e)
  case (Chars w)
  then have "literal_at ic w (drop i s)" and e: "e = i + length w" by (auto split: if_splits)
  from literal_at_length [OF this(1)] Chars.prems(2) e show ?case by simp
next
  case (Class k)
  then show ?case by (auto split: if_splits)
next
  case (Star k)
  then have "i \<le> e \<and> e \<le> i + run_length k s i" by auto
  with run_length_le [of i k s] Star.prems(2) show ?case by simp
next
  case (Plus k)
  then have "i \<le> e \<and> e \<le> i + run_length k s i" by auto
  with run_length_le [of i k s] Plus.prems(2) show ?case by simp
next
  case (Opt r)
  then show ?case by auto
next
  case (Seq r1 r2)
  then obtain m where m: "m \<in> set (ends ic r1 s i)" and e: "e \<in> set (ends ic r2 s m)" by auto
  from Seq.IH(1) [OF m Seq.prems(2)] have 1: "i \<le> m" "m \<le> length s" by simp_all
  from Seq.IH(2) [OF e 1(2)] 1 show ?case by simp
next
  case (Alt r1 r2)
  then show ?case by auto
next
  case WordB
  then show ?case by (auto split: if_splits)
qed

lemma sub_build_length:
  "\<forall>i e es. i \<le> length s \<longrightarrow> ends ic r s i = e # es \<longrightarrow>
             e - i \<le> length (repl (take (e - i) (drop i s))) \<Longrightarrow>
   p \<le> pos \<Longrightarrow> length s - p \<le> length (sub_build s repl p (finditer_from ic r s pos))"
proof (induction ic r s pos arbitrary: p rule: finditer_from.induct)
  case (1 ic r s pos)
  note H = "1.prems"(1)
  show ?case
  proof (cases "length s < pos")
    case True
    then show ?thesis by (simp add: finditer_from.simps [of ic r s pos])
  next
    case False
    then have le: "pos \<le> length s" by simp
    show ?thesis
    proof (cases "ends ic r s pos")
      case Nil
      with False have eq: "finditer_from ic r s pos = finditer_from ic r s (Suc pos)"
        by (simp add: finditer_from.simps [of ic r s pos])
      from "1.prems"(2) have "p \<le> Suc pos" by simp
      from "1.IH"(1) [OF False Nil H this] show ?thesis unfolding eq .
    next
      case (Cons e es)
      let ?next = "if pos < e then e else Suc pos"
      from Cons False have eq: "finditer_from ic r s pos = (pos, e) # finditer_from ic r s ?next"
        by (simp add: finditer_from.simps [of ic r s pos])
      from Cons have "e \<in> set (ends ic r s pos)" by simp
      from ends_range [OF this le] have r: "pos \<le> e" "e \<le> length s" by simp_all
      then have "e \<le> ?next" by simp
      from "1.IH"(2) [OF False Cons H this]
      have a: "length s - e \<le> length (sub_build s repl e (finditer_from ic r s ?next))" .
      from H le Cons have b: "e - pos \<le> length (repl (take (e - pos) (drop pos s)))" by blast
      have c: "length (take (pos - p) (drop p s)) = pos - p" using "1.prems"(2) le by simp
      from a b c r "1.prems"(2) show ?thesis unfolding eq by simp
    qed
  qed
qed

lemma re_sub_length:
  assumes "\<And>i e es. i \<le> length s \<Longrightarrow> ends ic r s i = e # es \<Longrightarrow>
             e - i \<le> length (repl (take (e - i) (drop i s)))"
  shows "length s \<le> length (re_sub ic r repl s)"
proof -
  from assms have "\<forall>i e es. i \<le> length s \<longrightarrow> ends ic r s i = e # es \<longrightarrow>
             e - i \<le> length (repl (take (e - i) (drop i s)))" by blast
  from sub_build_length [OF this, of 0 0] show ?thesis by (simp add: re_sub_def finditer_def)
qed

lemma single_spaced_drop: "single_spaced s \<Longrightarrow> single_spaced (drop i s)"
proof (induction s arbitrary: i rule: single_spaced.induct)
  case (1 a b s)
  then show ?case by (cases i) auto
qed (auto simp: drop_Cons split: nat.splits)

lemma single_spaced_run: "single_spaced t \<Longrightarrow> length (takeWhile is_space t) \<le> 1"
  by (cases t rule: single_spaced.cases) auto

lemma collapse_length:
  assumes "single_spaced s"
  shows "length s \<le> length (re_sub False (Plus Space) (\<lambda>m. '' '') s)"
proof (rule re_sub_length)
  fix i e es
  assume "i \<le> length s" and e: "ends False (Plus Space) s i = e # es"
  from single_spaced_run [OF single_spaced_drop [OF assms, of i]]
  have "run_length Space s i \<le> 1" by (simp add: run_length_def cong: takeWhile_cong)
  with e have "e - i \<le> 1"
    by (cases "run_length Space s i = 0") (auto simp: upt_rec)
  then show "e - i \<le> length ((\<lambda>m. '' '') (take (e - i) (drop i s)))" by simp
qed

lemma split_number_unit_length: "length (split_number_unit m) = Suc (length m)"
proof -
  have "length (takeWhile is_digit m) + length (dropWhile is_digit m) = length m"
    by (metis length_append takeWhile_dropWhile_id)
  then show ?thesis by (simp add: split_number_unit_def)
qed

lemma split_length:
  "length s \<le> length (re_sub False (Seq (Plus Digit) (Plus AsciiLetter)) split_number_unit s)"
proof (rule re_sub_length)
  fix i e es
  assume i: "i \<le> length s" and e: "ends False (Seq (Plus Digit) (Plus AsciiLetter)) s i = e # es"
  then have "e \<in> set (ends False (Seq (Plus Digit) (Plus AsciiLetter)) s i)" by simp
  from ends_range [OF this i] have "length (take (e - i) (drop i s)) = e - i"
    by (auto simp: min_def)
  then show "e - i \<le> length (split_number_unit (take (e - i) (drop i s)))"
    by (simp add: split_number_unit_length)
qed

lemma expand_abbreviation_length:
  assumes "length (fst a) \<le> length (snd a)"
  shows "length s \<le> length (expand_abbreviation s a)"
  unfolding expand_abbreviation_def
proof (rule re_sub_length)
  fix i e es
  assume "i \<le> length s" and "ends True (seqs [WordB, Chars (fst a), WordB]) s i = e # es"
  then have "e \<in> set (ends True (seqs [WordB, Chars (fst a), WordB]) s i)" by simp
  then have "e = i + length (fst a)" by (auto simp: seqs_def split: if_splits)
  with assms show "e - i \<le> length ((\<lambda>m. snd a) (take (e - i) (drop i s)))" by simp
qed

lemma expand_all_length:
  "\<forall>a\<in>set as. length (fst a) \<le> length (snd a) \<Longrightarrow>
   length s \<le> length (foldl expand_abbreviation s as)"
proof (induction as arbitrary: s)
  case Nil
  then show ?case by simp
next
  case (Cons a as)
  from Cons.prems have "length s \<le> length (expand_abbreviation s a)"
    by (simp add: expand_abbreviation_length)
  also from Cons.prems have "\<dots> \<le> length (foldl expand_abbreviation (expand_abbreviation s a) as)"
    by (intro Cons.IH) simp
  finally show ?case by simp
qed

lemma abbreviations_longer: "\<forall>a\<in>set abbreviations. length (fst a) \<le> length (snd a)"
  by (simp add: abbreviations_def)

text \<open>
  Claim C8, as amended. Collapsing whitespace can shorten the text; after it, the
  splitting of numbers from units and the expansion of abbreviations never shorten it.
  So the output is at least as long as the whitespace-collapsed input, and at least
  as long as the input itself when no two neighbouring characters of the input are both
  whitespace.
\<close>

theorem normalizer_length:
  "length (re_sub False (Plus Space) (\<lambda>m. '' '') tx) \<le> length (preprocess_text tx)
   \<and> (single_spaced tx \<longrightarrow> length tx \<le> length (preprocess_text tx))"
proof -
  let ?t1 = "re_sub False (Plus Space) (\<lambda>m. '' '') tx"
  let ?t2 = "re_sub False (Seq (Plus Digit) (Plus AsciiLetter)) split_number_unit ?t1"
  have "length ?t1 \<le> length ?t2" by (rule split_length)
  also have "\<dots> \<le> length (foldl expand_abbreviation ?t2 abbreviations)"
    by (rule expand_all_length [OF abbreviations_longer])
  finally have 1: "length ?t1 \<le> length (preprocess_text tx)"
    by (simp add: preprocess_text_def Let_def)
  have "single_spaced tx \<longrightarrow> length tx \<le> length (preprocess_text tx)"
  proof
    assume "single_spaced tx"
    from collapse_length [OF this] 1 show "length tx \<le> length (preprocess_text tx)" by simp
  qed
  with 1 show ?thesis by blast
qed

theorem normalizer_length_witness:
  "single_spaced ''pt 5mg'' \<and> preprocess_text ''pt 5mg'' = ''patient 5 mg''
   \<and> length ''pt 5mg'' \<le> length (preprocess_text ''pt 5mg'')"
proof -
  have s: "single_spaced ''pt 5mg''" by code_simp
  have p: "preprocess_text ''pt 5mg'' = ''patient 5 mg''" by code_simp
  from normalizer_length [of "''pt 5mg''"] s
  have "length ''pt 5mg'' \<le> length (preprocess_text ''pt 5mg'')" by blast
  with s p show ?thesis by blast
qed

text \<open>
  The claim as stated fails on an input with two spaces in a row: the normalizer turns
  the four characters \<^verbatim>\<open>a  b\<close> into the three characters \<^verbatim>\<open>a b\<close>.
\<close>

theorem normalizer_shortens:
  "preprocess_text ''a  b'' = ''a b'' \<and> length (preprocess_text ''a  b'') < length ''a  b''"
  by code_simp

subsection \<open>Spans of the extracted entities\<close>

text \<open>
  Claim C7 says that every span of the output is a range into the original text. The
  candidates are found in the normalized text and their offsets are kept as they are,
  while the context of an entity is cut from the original text with the same offsets.
  On the input \<^verbatim>\<open>pt pain\<close> (7 characters, normalized to \<^verbatim>\<open>patient pain\<close>) the
  entity \<^verbatim>\<open>pain\<close> is reported with the span [8, 12), which ends after the end of
  the original text.
\<close>

theorem span_outside_original_text:
  "map (\<lambda>e. (e_text e, start_pos e, end_pos e))
       (fst (extract_entities default_config offline_world None ''pt pain'' fresh_client))
     = [(''pain'', 8, 12)]
   \<and> length ''pt pain'' = 7"
  by code_simp

subsection \<open>Medications and their dosages in the document result\<close>

text \<open>
  Claim C10 says that a surviving dosage is embedded in a medication record exactly
  when its \<^verbatim>\<open>linked_medication\<close> is the text of a surviving MEDICATION entity. The
  grouping loop looks the link up in the records built so far, so a medication that
  comes later in the entity list is missed. On the input \<^verbatim>\<open>aspirin 5mg\<close> the dosage
  \<^verbatim>\<open>5 mg\<close> is linked to \<^verbatim>\<open>aspirin\<close>, the entity \<^verbatim>\<open>aspirin\<close> survives the gate
  and gets a record, and yet the dosage stays in the bucket \<^verbatim>\<open>dosages\<close> and no record
  carries it.
\<close>

theorem linked_dosage_not_embedded:
  "(let r = entities (fst (process_document default_config offline_world None
                             ''aspirin 5mg'' fresh_client))
    in (map (\<lambda>(k, m). (k, dosage m)) (medications r),
        map (\<lambda>e. (e_text e, linked_medication e)) (dosages r)))
   = ([(''aspirin 5 mg'', None), (''aspirin'', None)], [(''5 mg'', Some ''aspirin'')])"
  by code_simp

subsection \<open>Knowledge-base lookups\<close>

lemma use_cache_time_time [simp]: "use_cache (snd (time_time w c)) = use_cache c"
  by (simp add: time_time_def)

lemma use_cache_sent [simp]: "use_cache (sent c) = use_cache c"
  by (simp add: sent_def)

lemma use_cache_request_tgt [simp]: "use_cache (snd (request_tgt w c)) = use_cache c"
  by (simp add: request_tgt_def time_time_def Let_def split: reply.splits prod.splits)

lemma use_cache_get_tgt_url [simp]: "use_cache (snd (get_tgt_url w c)) = use_cache c"
  by (simp add: get_tgt_url_def time_time_def Let_def split: prod.splits)

lemma use_cache_ticket [simp]: "use_cache (snd (get_fresh_service_ticket w c)) = use_cache c"
proof -
  obtain tgt c1 where g: "get_tgt_url w c = (tgt, c1)" by (metis surj_pair)
  with use_cache_get_tgt_url [of w c] have "use_cache c1 = use_cache c" by simp
  with g show ?thesis
    by (simp add: get_fresh_service_ticket_def split: option.splits reply.splits)
qed

lemma use_cache_search_approximate [simp]: "use_cache (snd (search_approximate w tm c)) = use_cache c"
proof -
  obtain t c1 where g: "get_fresh_service_ticket w c = (t, c1)" by (metis surj_pair)
  with use_cache_ticket [of w c] have "use_cache c1 = use_cache c" by simp
  with g show ?thesis
    by (simp add: search_approximate_def split: option.splits reply.splits)
qed

lemma use_cache_search [simp]: "use_cache (snd (search_umls_concept w tm c)) = use_cache c"
proof -
  obtain t c1 where g: "get_fresh_service_ticket w c = (t, c1)" by (metis surj_pair)
  with use_cache_ticket [of w c] have "use_cache c1 = use_cache c" by simp
  with g show ?thesis
    by (simp add: search_umls_concept_def
             split: option.splits reply.splits list.splits search_hit.splits)
qed

lemma use_cache_details [simp]: "use_cache (snd (get_concept_details w cui c)) = use_cache c"
proof -
  obtain t c1 where g: "get_fresh_service_ticket w c = (t, c1)" by (metis surj_pair)
  with use_cache_ticket [of w c] have "use_cache c1 = use_cache c" by simp
  with g show ?thesis
    by (simp add: get_concept_details_def split: option.splits reply.splits)
qed

lemma cache_result_entry:
  "use_cache c \<Longrightarrow>
   use_cache (cache_result w tm r c)
   \<and> (\<exists>row. map_of (cache (cache_result w tm r c)) (cache_key tm) = Some row \<and> row_result row = r)"
  by (simp add: cache_result_def time_time_def update_conv')

lemma get_cached_result_cases:
  "get_cached_result w tm c = (res, c1) \<Longrightarrow>
   use_cache c1 = use_cache c \<and> cache c1 = cache c
   \<and> (case res of
        None \<Rightarrow> True
      | Some r \<Rightarrow> use_cache c \<and> c1 = c\<lparr>clock_reads := Suc (clock_reads c)\<rparr>
                   \<and> (\<exists>row. map_of (cache c) (cache_key tm) = Some row \<and> row_result row = r))"
  by (auto simp: get_cached_result_def time_time_def Let_def split: if_splits option.splits)

lemma cached_then_hit:
  assumes "use_cache c" and "map_of (cache c) (cache_key tm) = Some row"
    and "clock w (clock_reads c) - of_int (timestamp row) < 30 * 24 * 3600"
  shows "lookup_term w tm c = (row_result row, c\<lparr>clock_reads := Suc (clock_reads c)\<rparr>)"
  using assms by (simp add: lookup_term_def get_cached_result_def time_time_def)

lemma lookup_term_caches:
  assumes "use_cache c" and "lookup_term w tm c = (r1, c1)" and "\<forall>msg. r1 \<noteq> error_result msg"
  shows "use_cache c1 \<and> (\<exists>row. map_of (cache c1) (cache_key tm) = Some row \<and> row_result row = r1)"
proof -
  obtain res c0 where g: "get_cached_result w tm c = (res, c0)" by (metis surj_pair)
  from get_cached_result_cases [OF g] assms(1) have u0: "use_cache c0" and k0: "cache c0 = cache c" by simp_all
  show ?thesis
  proof (cases res)
    case (Some r)
    with g assms(2) have "r1 = r" "c1 = c0" by (simp_all add: lookup_term_def)
    with get_cached_result_cases [OF g] Some u0 k0 show ?thesis by auto
  next
    case None
    show ?thesis
    proof (cases "truthy (environ_api_key w)")
      case False
      with g None assms(2) have "r1 = error_result ''No API key''" by (simp add: lookup_term_def)
      with assms(3) show ?thesis by blast
    next
      case True
      obtain hits c2 where s: "search_umls_concept w tm c0 = (hits, c2)" by (metis surj_pair)
      with use_cache_search [of w tm c0] u0 have u2: "use_cache c2" by simp
      show ?thesis
      proof (cases hits)
        case Nil
        with g None True s assms(2) have "r1 = no_results" "c1 = cache_result w tm no_results c2"
          by (simp_all add: lookup_term_def)
        with cache_result_entry [OF u2] show ?thesis by simp
      next
        case (Cons h rest)
        show ?thesis
        proof (cases h)
          case (NotDict msg)
          with g None True s Cons assms(2) have "r1 = error_result msg" by (simp add: lookup_term_def)
          with assms(3) show ?thesis by blast
        next
          case (BadName cui msg)
          with g None True s Cons assms(2) have "r1 = error_result msg"
            by (simp add: lookup_term_def split: prod.splits)
          with assms(3) show ?thesis by blast
        next
          case (Hit cui concept_name)
          with g None True s Cons assms(2)
          have r: "resolve_concept w tm cui concept_name c2 = (r1, c1)" by (simp add: lookup_term_def)
          obtain d c3 where dd: "get_concept_details w cui c2 = (d, c3)" by (metis surj_pair)
          with use_cache_details [of w cui c2] u2 have u3: "use_cache c3" by simp
          from r dd have "c1 = cache_result w tm r1 c3"
            by (auto simp: resolve_concept_def Let_def split: prod.splits)
          with cache_result_entry [OF u3] show ?thesis by simp
        qed
      qed
    qed
  qed
qed

text \<open>
  Claim C4, as amended. With the cache enabled, when a first lookup of a term returns
  anything but an error result (a cache hit, the no-result marker, or a resolved
  concept) and a second lookup of the same term is made while the entry stored under
  the lower-cased, stripped term is younger than 30 days, then the second lookup is a
  cache hit: it returns the same result as the first, issues no request, and leaves the
  cache as it was (the client only read the clock once more).
\<close>

theorem lookup_term_second_call_hits:
  assumes "use_cache c" and "lookup_term w tm c = (r1, c1)"
    and "\<forall>msg. r1 \<noteq> error_result msg"
    and "\<forall>row. map_of (cache c1) (cache_key tm) = Some row \<longrightarrow>
           clock w (clock_reads c1) - of_int (timestamp row) < 30 * 24 * 3600"
  shows "lookup_term w tm c1 = (r1, c1\<lparr>clock_reads := Suc (clock_reads c1)\<rparr>)
       \<and> fst (get_cached_result w tm c1) = Some r1
       \<and> requests (snd (lookup_term w tm c1)) = requests c1
       \<and> cache (snd (lookup_term w tm c1)) = cache c1"
proof -
  from lookup_term_caches [OF assms(1,2,3)] obtain row where
    u: "use_cache c1" and m: "map_of (cache c1) (cache_key tm) = Some row" and r: "row_result row = r1"
    by blast
  from assms(4) m have live: "clock w (clock_reads c1) - of_int (timestamp row) < 30 * 24 * 3600" by blast
  from cached_then_hit [OF u m live] r
  have 1: "lookup_term w tm c1 = (r1, c1\<lparr>clock_reads := Suc (clock_reads c1)\<rparr>)" by simp
  from u m live r have 2: "fst (get_cached_result w tm c1) = Some r1"
    by (simp add: get_cached_result_def time_time_def)
  from 1 2 show ?thesis by simp
qed

theorem lookup_term_second_call_hits_witness:
  "use_cache fresh_client
   \<and> fst (lookup_term live_world ''Aspirin'' fresh_client)
       = \<lparr>lr_entity_type = MEDICATION, lr_umls_code = Some ''C0004057'', lr_confidence = 9 / 10,
          lr_metadata = Some (MetaSuccess ''aspirin'' [''T121''] 1)\<rparr>
   \<and> fst (lookup_term live_world ''Aspirin'' (snd (lookup_term live_world ''Aspirin'' fresh_client)))
       = fst (lookup_term live_world ''Aspirin'' fresh_client)
   \<and> requests (snd (lookup_term live_world ''Aspirin''
                        (snd (lookup_term live_world ''Aspirin'' fresh_client))))
       = requests (snd (lookup_term live_world ''Aspirin'' fresh_client))"
proof -
  let ?r1 = "fst (lookup_term live_world ''Aspirin'' fresh_client)"
  let ?c1 = "snd (lookup_term live_world ''Aspirin'' fresh_client)"
  have u: "use_cache fresh_client" by (simp add: fresh_client_def)
  have f: "lookup_term live_world ''Aspirin'' fresh_client = (?r1, ?c1)" by simp
  have r: "?r1 = \<lparr>lr_entity_type = MEDICATION, lr_umls_code = Some ''C0004057'',
                    lr_confidence = 9 / 10,
                    lr_metadata = Some (MetaSuccess ''aspirin'' [''T121''] 1)\<rparr>"
    by code_simp
  have e: "\<forall>msg. ?r1 \<noteq> error_result msg" unfolding r by (simp add: error_result_def)
  have k: "cache ?c1 = [(''aspirin'', \<lparr>row_result = ?r1, timestamp = 1000\<rparr>)]
           \<and> cache_key ''Aspirin'' = ''aspirin'' \<and> clock live_world (clock_reads ?c1) = 1000"
    by code_simp
  from k have t: "\<forall>row. map_of (cache ?c1) (cache_key ''Aspirin'') = Some row \<longrightarrow>
           clock live_world (clock_reads ?c1) - of_int (timestamp row) < 30 * 24 * 3600"
    by simp
  from lookup_term_second_call_hits [OF u f e t] u r show ?thesis by simp
qed

text \<open>
  The claim as stated fails for a client created without the cache: the second lookup
  of the same term goes to the network again (four more requests; only the granting
  credential is reused).
\<close>

theorem uncached_second_call_uses_network:
  "requests (snd (lookup_term live_world ''Aspirin'' uncached_client)) = 5
   \<and> requests (snd (lookup_term live_world ''Aspirin''
                        (snd (lookup_term live_world ''Aspirin'' uncached_client)))) = 9"
  by code_simp

lemma cache_time_time [simp]: "cache (snd (time_time w c)) = cache c"
  by (simp add: time_time_def)

lemma cache_sent [simp]: "cache (sent c) = cache c"
  by (simp add: sent_def)

lemma cache_request_tgt [simp]: "cache (snd (request_tgt w c)) = cache c"
  by (simp add: request_tgt_def time_time_def Let_def split: reply.splits prod.splits)

lemma cache_get_tgt_url [simp]: "cache (snd (get_tgt_url w c)) = cache c"
  by (simp add: get_tgt_url_def time_time_def Let_def split: prod.splits)

lemma cache_ticket [simp]: "cache (snd (get_fresh_service_ticket w c)) = cache c"
proof -
  obtain tgt c1 where g: "get_tgt_url w c = (tgt, c1)" by (metis surj_pair)
  with cache_get_tgt_url [of w c] have "cache c1 = cache c" by simp
  with g show ?thesis
    by (simp add: get_fresh_service_ticket_def split: option.splits reply.splits)
qed

lemma cache_search_approximate [simp]: "cache (snd (search_approximate w tm c)) = cache c"
proof -
  obtain t c1 where g: "get_fresh_service_ticket w c = (t, c1)" by (metis surj_pair)
  with cache_ticket [of w c] have "cache c1 = cache c" by simp
  with g show ?thesis
    by (simp add: search_approximate_def split: option.splits reply.splits)
qed

lemma cache_search [simp]: "cache (snd (search_umls_concept w tm c)) = cache c"
proof -
  obtain t c1 where g: "get_fresh_service_ticket w c = (t, c1)" by (metis surj_pair)
  with cache_ticket [of w c] have "cache c1 = cache c" by simp
  with g show ?thesis
    by (simp add: search_umls_concept_def
             split: option.splits reply.splits list.splits search_hit.splits)
qed

lemma cache_details [simp]: "cache (snd (get_concept_details w cui c)) = cache c"
proof -
  obtain t c1 where g: "get_fresh_service_ticket w c = (t, c1)" by (metis surj_pair)
  with cache_ticket [of w c] have "cache c1 = cache c" by simp
  with g show ?thesis
    by (simp add: get_concept_details_def split: option.splits reply.splits)
qed

lemma cache_result_cached_as: "use_cache c \<Longrightarrow> cached_as (cache_result w tm r c) tm r"
  by (simp add: cached_as_def cache_result_def time_time_def update_conv')

lemma auth_failure_tgt:
  assumes "\<not> tgt_valid w c" and "auth_failed (auth_post w (requests c) (api_key c))"
  shows "fst (get_tgt_url w c) = None"
proof -
  have r: "fst (request_tgt w c') = None"
    if "requests c' = requests c" and "api_key c' = api_key c" for c'
    using assms(2) that
    by (cases "auth_post w (requests c) (api_key c)")
       (auto simp: request_tgt_def Let_def split: prod.splits)
  show ?thesis
  proof (cases "truthy (tgt_url c)")
    case False
    with r [of c] show ?thesis by (simp add: get_tgt_url_def)
  next
    case True
    with assms(1) have "\<not> clock w (clock_reads c) < tgt_expiry c" by (simp add: tgt_valid_def)
    with True r [of "c\<lparr>clock_reads := Suc (clock_reads c)\<rparr>"] show ?thesis
      by (simp add: get_tgt_url_def time_time_def)
  qed
qed

lemma tgt_failure_ticket:
  "fst (get_tgt_url w c) = None \<Longrightarrow> fst (get_fresh_service_ticket w c) = None"
  by (cases "get_tgt_url w c") (simp add: get_fresh_service_ticket_def)

lemma ticket_request_failure:
  assumes "get_tgt_url w c = (Some url, c1)" and "ticket_failed (ticket_post w (requests c1) url)"
  shows "\<not> truthy (fst (get_fresh_service_ticket w c))"
  using assms
  by (cases "ticket_post w (requests c1) url") (auto simp: get_fresh_service_ticket_def)

lemma ticket_failure_search:
  "\<not> truthy (fst (get_fresh_service_ticket w c)) \<Longrightarrow> fst (search_umls_concept w tm c) = []"
  by (cases "get_fresh_service_ticket w c")
     (auto simp: search_umls_concept_def split: option.splits)

lemma search_request_failure:
  assumes "get_fresh_service_ticket w c = (Some t, c1)"
    and "search_failed (search_get w (requests c1) t tm True)"
  shows "fst (search_umls_concept w tm c) = []"
  using assms
  by (cases "search_get w (requests c1) t tm True") (auto simp: search_umls_concept_def)

lemma search_first_entry_raises:
  assumes "get_fresh_service_ticket w c = (Some t, c1)" and "t \<noteq> []"
    and "search_get w (requests c1) t tm True = Reply 200 (Some (NotDict msg # rest))"
  shows "fst (search_umls_concept w tm c) = []"
  using assms by (simp add: search_umls_concept_def)

lemma approximate_failure:
  assumes "get_fresh_service_ticket w c = (t2, c2)"
    and "\<not> truthy t2 \<or> search_failed (search_get w (requests c2) (the t2) tm False)"
  shows "fst (search_approximate w tm c) = []"
proof (cases "truthy t2")
  case False
  with assms(1) show ?thesis by (cases t2) (simp_all add: search_approximate_def)
next
  case True
  then obtain t where t: "t2 = Some t" "t \<noteq> []" by (cases t2) simp_all
  with assms(2) have "search_failed (search_get w (requests c2) t tm False)" by simp
  with assms(1) t show ?thesis
    by (cases "search_get w (requests c2) t tm False") (auto simp: search_approximate_def)
qed

lemma search_approximate_failure:
  assumes "get_fresh_service_ticket w c = (Some t, c1)" and "t \<noteq> []"
    and "search_get w (requests c1) t tm True = Reply 200 (Some [])"
    and "get_fresh_service_ticket w (sent c1) = (t2, c2)"
    and "\<not> truthy t2 \<or> search_failed (search_get w (requests c2) (the t2) tm False)"
  shows "fst (search_umls_concept w tm c) = []"
  using assms(1,2,3) approximate_failure [OF assms(4,5)]
  by (simp add: search_umls_concept_def)

lemma details_fetch_failure:
  assumes "get_fresh_service_ticket w c = (t, c3)"
    and "\<not> truthy t \<or> details_failed (concept_get w (requests c3) cui (the t))"
  shows "fst (get_concept_details w cui c) = None"
proof (cases "truthy t")
  case False
  with assms(1) show ?thesis by (cases t) (simp_all add: get_concept_details_def)
next
  case True
  then obtain tk where t: "t = Some tk" "tk \<noteq> []" by (cases t) simp_all
  with assms(2) have "details_failed (concept_get w (requests c3) cui tk)" by simp
  with assms(1) t show ?thesis
    by (cases "concept_get w (requests c3) cui tk") (auto simp: get_concept_details_def)
qed

lemma similarity_bounds:
  "6 / 10 \<le> calculate_name_similarity a b \<and> calculate_name_similarity a b \<le> 1"
proof -
  let ?w1 = "remdups (split_words a)" and ?w2 = "remdups (split_words b)"
  let ?overlap = "length (filter (\<lambda>x. x \<in> set ?w2) ?w1)"
  let ?total = "length (remdups (?w1 @ ?w2))"
  define q where "q = real ?overlap / real ?total"
  have "?overlap \<le> length ?w1" by (rule length_filter_le)
  also have "length ?w1 = card (set ?w1)" by (simp add: length_remdups_card_conv)
  also have "\<dots> \<le> card (set (?w1 @ ?w2))" by (intro card_mono) auto
  also have "\<dots> = ?total" by (simp only: length_remdups_card_conv)
  finally have le: "?overlap \<le> ?total" .
  have q0: "0 \<le> q" by (simp add: q_def)
  have q1: "q \<le> 1"
  proof (cases "?total = 0")
    case True
    then show ?thesis by (simp add: q_def)
  next
    case False
    with le show ?thesis by (simp add: q_def divide_le_eq_1)
  qed
  consider (same) "a = b"
    | (sub) "a \<noteq> b" "is_substring a b \<or> is_substring b a"
    | (shared) "a \<noteq> b" "\<not> (is_substring a b \<or> is_substring b a)" "?overlap \<noteq> 0"
    | (none) "a \<noteq> b" "\<not> (is_substring a b \<or> is_substring b a)" "?overlap = 0"
    by blast
  then show ?thesis
  proof cases
    case same
    then show ?thesis by (simp add: calculate_name_similarity_def)
  next
    case sub
    then have "calculate_name_similarity a b = 9 / 10"
      by (simp add: calculate_name_similarity_def)
    then show ?thesis by simp
  next
    case shared
    then have "calculate_name_similarity a b = 7 / 10 + q * (2 / 10)"
      by (simp add: calculate_name_similarity_def Let_def q_def)
    with q0 q1 show ?thesis by simp
  next
    case none
    then have "calculate_name_similarity a b = 6 / 10"
      by (simp add: calculate_name_similarity_def Let_def)
    then show ?thesis by simp
  qed
qed

lemma map_semantic_empty: "map_semantic_type_to_entity [] = (UNKNOWN, 1 / 2)"
  by (simp add: map_semantic_type_to_entity_def)

lemma resolve_concept_details_failed:
  assumes "fst (get_concept_details w cui c) = None"
  shows "resolve_concept w tm cui concept_name c
       = (\<lparr>lr_entity_type = UNKNOWN, lr_umls_code = Some cui,
           lr_confidence = round3 w (1 / 2 * calculate_name_similarity (lower tm) (lower concept_name)),
           lr_metadata = Some (MetaSuccess concept_name []
                                 (round3 w (calculate_name_similarity (lower tm) (lower concept_name))))\<rparr>,
          cache_result w tm
            \<lparr>lr_entity_type = UNKNOWN, lr_umls_code = Some cui,
             lr_confidence = round3 w (1 / 2 * calculate_name_similarity (lower tm) (lower concept_name)),
             lr_metadata = Some (MetaSuccess concept_name []
                                   (round3 w (calculate_name_similarity (lower tm) (lower concept_name))))\<rparr>
            (snd (get_concept_details w cui c)))"
  using assms
  by (cases "get_concept_details w cui c")
     (simp add: resolve_concept_def map_semantic_empty Let_def)

lemma lookup_term_marker:
  assumes "get_cached_result w tm c = (None, c0)" and "truthy (environ_api_key w)"
    and "fst (search_umls_concept w tm c0) = []"
  shows "fst (lookup_term w tm c) = no_results
       \<and> (use_cache c \<longrightarrow> cached_as (snd (lookup_term w tm c)) tm no_results)"
proof -
  obtain hits c2 where s: "search_umls_concept w tm c0 = (hits, c2)" by (metis surj_pair)
  with assms(3) have h: "hits = []" by simp
  from get_cached_result_cases [OF assms(1)] have u0: "use_cache c0 = use_cache c" by simp
  from use_cache_search [of w tm c0] s u0 have u2: "use_cache c2 = use_cache c" by simp
  from assms(1,2) s h have "lookup_term w tm c = (no_results, cache_result w tm no_results c2)"
    by (simp add: lookup_term_def)
  with u2 cache_result_cached_as [of c2 w tm no_results] show ?thesis by simp
qed

text \<open>
  Claim C5, as amended. In the model every exception of the source is a branch that
  returns a result, so a lookup never raises; on a cache miss \<open>c0\<close> is the client after
  the cache was read. Without an API key the lookup returns the error result
  (UNKNOWN, confidence 0.0), sends nothing and caches nothing. With a key:

  \<^item> when no valid granting credential is held and the credential request fails,
  \<^item> when the ticket request of the search fails,
  \<^item> when the exact search request fails,
  \<^item> when the first entry of the exact search result is not an object,
  \<^item> when the exact search finds nothing and the ticket or the request of the
    approximate search fails,

  the lookup returns the no-result marker (UNKNOWN, confidence 0.3), and with the cache
  enabled the marker is stored under the key of the term;

  \<^item> when the search finds a concept and the concept-detail fetch fails (no ticket, or
    a failed request), the lookup returns type UNKNOWN with the code of the concept
    found and the confidence \<^verbatim>\<open>round(0.5 * similarity, 3)\<close>, where 0.5 times the
    similarity lies between 0.3 and 0.5, and stores it in the cache as a successful
    lookup;
  \<^item> when the first entry returned by the search is not an object, or its name is not a
    string, the lookup returns the error result (UNKNOWN, confidence 0.0) and caches
    nothing; in the second case only after the concept details were requested.
\<close>

theorem lookup_term_degrades:
  assumes "get_cached_result w tm c = (None, c0)"
  shows
    "(\<not> truthy (environ_api_key w) \<longrightarrow>
        lookup_term w tm c = (error_result ''No API key'', c0)
        \<and> requests c0 = requests c \<and> cache c0 = cache c)
   \<and> (truthy (environ_api_key w) \<longrightarrow>
        (\<not> tgt_valid w c0 \<and> auth_failed (auth_post w (requests c0) (api_key c0))
           \<longrightarrow> fst (lookup_term w tm c) = no_results
             \<and> (use_cache c \<longrightarrow> cached_as (snd (lookup_term w tm c)) tm no_results))
      \<and> (\<forall>url c1. get_tgt_url w c0 = (Some url, c1)
                    \<and> ticket_failed (ticket_post w (requests c1) url)
           \<longrightarrow> fst (lookup_term w tm c) = no_results
             \<and> (use_cache c \<longrightarrow> cached_as (snd (lookup_term w tm c)) tm no_results))
      \<and> (\<forall>t c1. get_fresh_service_ticket w c0 = (Some t, c1)
                  \<and> search_failed (search_get w (requests c1) t tm True)
           \<longrightarrow> fst (lookup_term w tm c) = no_results
             \<and> (use_cache c \<longrightarrow> cached_as (snd (lookup_term w tm c)) tm no_results))
      \<and> (\<forall>t c1 msg rest. get_fresh_service_ticket w c0 = (Some t, c1) \<and> t \<noteq> []
                  \<and> search_get w (requests c1) t tm True = Reply 200 (Some (NotDict msg # rest))
           \<longrightarrow> fst (lookup_term w tm c) = no_results
             \<and> (use_cache c \<longrightarrow> cached_as (snd (lookup_term w tm c)) tm no_results))
      \<and> (\<forall>t c1 t2 c2. get_fresh_service_ticket w c0 = (Some t, c1) \<and> t \<noteq> []
                  \<and> search_get w (requests c1) t tm True = Reply 200 (Some [])
                  \<and> get_fresh_service_ticket w (sent c1) = (t2, c2)
                  \<and> (\<not> truthy t2 \<or> search_failed (search_get w (requests c2) (the t2) tm False))
           \<longrightarrow> fst (lookup_term w tm c) = no_results
             \<and> (use_cache c \<longrightarrow> cached_as (snd (lookup_term w tm c)) tm no_results))
      \<and> (\<forall>cui concept rest c2 t c3.
             search_umls_concept w tm c0 = (Hit cui concept # rest, c2)
             \<and> get_fresh_service_ticket w c2 = (t, c3)
             \<and> (\<not> truthy t \<or> details_failed (concept_get w (requests c3) cui (the t)))
           \<longrightarrow> fst (lookup_term w tm c)
                 = \<lparr>lr_entity_type = UNKNOWN, lr_umls_code = Some cui,
                    lr_confidence =
                      round3 w (1 / 2 * calculate_name_similarity (lower tm) (lower concept)),
                    lr_metadata = Some (MetaSuccess concept []
                      (round3 w (calculate_name_similarity (lower tm) (lower concept))))\<rparr>
             \<and> 3 / 10 \<le> 1 / 2 * calculate_name_similarity (lower tm) (lower concept)
             \<and> 1 / 2 * calculate_name_similarity (lower tm) (lower concept) \<le> 1 / 2
             \<and> (use_cache c \<longrightarrow>
                  cached_as (snd (lookup_term w tm c)) tm (fst (lookup_term w tm c))))
      \<and> (\<forall>msg rest c2. search_umls_concept w tm c0 = (NotDict msg # rest, c2)
           \<longrightarrow> lookup_term w tm c = (error_result msg, c2) \<and> cache c2 = cache c)
      \<and> (\<forall>cui msg rest c2. search_umls_concept w tm c0 = (BadName cui msg # rest, c2)
           \<longrightarrow> lookup_term w tm c = (error_result msg, snd (get_concept_details w cui c2))
             \<and> cache (snd (get_concept_details w cui c2)) = cache c))
   \<and> lr_entity_type (error_result m) = UNKNOWN \<and> lr_confidence (error_result m) = 0
   \<and> lr_umls_code (error_result m) = None
   \<and> lr_entity_type no_results = UNKNOWN \<and> lr_confidence no_results = 3 / 10
   \<and> lr_umls_code no_results = None"
proof -
  let ?marker = "fst (lookup_term w tm c) = no_results
             \<and> (use_cache c \<longrightarrow> cached_as (snd (lookup_term w tm c)) tm no_results)"
  from get_cached_result_cases [OF assms]
  have u0: "use_cache c0 = use_cache c" and k0: "cache c0 = cache c" by simp_all
  from assms have q0: "requests c0 = requests c"
    by (auto simp: get_cached_result_def time_time_def Let_def split: if_splits option.splits)
  have nokey: "\<not> truthy (environ_api_key w) \<longrightarrow>
        lookup_term w tm c = (error_result ''No API key'', c0)
        \<and> requests c0 = requests c \<and> cache c0 = cache c"
    using assms k0 q0 by (simp add: lookup_term_def)
  have withkey: "truthy (environ_api_key w) \<longrightarrow>
        (\<not> tgt_valid w c0 \<and> auth_failed (auth_post w (requests c0) (api_key c0)) \<longrightarrow> ?marker)
      \<and> (\<forall>url c1. get_tgt_url w c0 = (Some url, c1)
                    \<and> ticket_failed (ticket_post w (requests c1) url) \<longrightarrow> ?marker)
      \<and> (\<forall>t c1. get_fresh_service_ticket w c0 = (Some t, c1)
                  \<and> search_failed (search_get w (requests c1) t tm True) \<longrightarrow> ?marker)
      \<and> (\<forall>t c1 msg rest. get_fresh_service_ticket w c0 = (Some t, c1) \<and> t \<noteq> []
                  \<and> search_get w (requests c1) t tm True = Reply 200 (Some (NotDict msg # rest))
           \<longrightarrow> ?marker)
      \<and> (\<forall>t c1 t2 c2. get_fresh_service_ticket w c0 = (Some t, c1) \<and> t \<noteq> []
                  \<and> search_get w (requests c1) t tm True = Reply 200 (Some [])
                  \<and> get_fresh_service_ticket w (sent c1) = (t2, c2)
                  \<and> (\<not> truthy t2 \<or> search_failed (search_get w (requests c2) (the t2) tm False))
           \<longrightarrow> ?marker)
      \<and> (\<forall>cui concept rest c2 t c3.
             search_umls_concept w tm c0 = (Hit cui concept # rest, c2)
             \<and> get_fresh_service_ticket w c2 = (t, c3)
             \<and> (\<not> truthy t \<or> details_failed (concept_get w (requests c3) cui (the t)))
           \<longrightarrow> fst (lookup_term w tm c)
                 = \<lparr>lr_entity_type = UNKNOWN, lr_umls_code = Some cui,
                    lr_confidence =
                      round3 w (1 / 2 * calculate_name_similarity (lower tm) (lower concept)),
                    lr_metadata = Some (MetaSuccess concept []
                      (round3 w (calculate_name_similarity (lower tm) (lower concept))))\<rparr>
             \<and> 3 / 10 \<le> 1 / 2 * calculate_name_similarity (lower tm) (lower concept)
             \<and> 1 / 2 * calculate_name_similarity (lower tm) (lower concept) \<le> 1 / 2
             \<and> (use_cache c \<longrightarrow>
                  cached_as (snd (lookup_term w tm c)) tm (fst (lookup_term w tm c))))
      \<and> (\<forall>msg rest c2. search_umls_concept w tm c0 = (NotDict msg # rest, c2)
           \<longrightarrow> lookup_term w tm c = (error_result msg, c2) \<and> cache c2 = cache c)
      \<and> (\<forall>cui msg rest c2. search_umls_concept w tm c0 = (BadName cui msg # rest, c2)
           \<longrightarrow> lookup_term w tm c = (error_result msg, snd (get_concept_details w cui c2))
             \<and> cache (snd (get_concept_details w cui c2)) = cache c)"
  proof
    assume key: "truthy (environ_api_key w)"
    note marker = lookup_term_marker [OF assms key]
    have 1: "\<not> tgt_valid w c0 \<and> auth_failed (auth_post w (requests c0) (api_key c0)) \<longrightarrow> ?marker"
    proof
      assume "\<not> tgt_valid w c0 \<and> auth_failed (auth_post w (requests c0) (api_key c0))"
      then have "fst (get_tgt_url w c0) = None" by (simp add: auth_failure_tgt)
      then have "\<not> truthy (fst (get_fresh_service_ticket w c0))" by (simp add: tgt_failure_ticket)
      then show ?marker by (intro marker ticket_failure_search)
    qed
    have 2: "\<forall>url c1. get_tgt_url w c0 = (Some url, c1)
                    \<and> ticket_failed (ticket_post w (requests c1) url) \<longrightarrow> ?marker"
    proof (intro allI impI, elim conjE)
      fix url c1
      assume "get_tgt_url w c0 = (Some url, c1)" "ticket_failed (ticket_post w (requests c1) url)"
      then have "\<not> truthy (fst (get_fresh_service_ticket w c0))" by (rule ticket_request_failure)
      then show ?marker by (intro marker ticket_failure_search)
    qed
    have 3: "\<forall>t c1. get_fresh_service_ticket w c0 = (Some t, c1)
                  \<and> search_failed (search_get w (requests c1) t tm True) \<longrightarrow> ?marker"
    proof (intro allI impI, elim conjE)
      fix t c1
      assume "get_fresh_service_ticket w c0 = (Some t, c1)"
        "search_failed (search_get w (requests c1) t tm True)"
      then have "fst (search_umls_concept w tm c0) = []" by (rule search_request_failure)
      then show ?marker by (rule marker)
    qed
    have 4: "\<forall>t c1 msg rest. get_fresh_service_ticket w c0 = (Some t, c1) \<and> t \<noteq> []
                  \<and> search_get w (requests c1) t tm True = Reply 200 (Some (NotDict msg # rest))
           \<longrightarrow> ?marker"
    proof (intro allI impI, elim conjE)
      fix t c1 msg rest
      assume "get_fresh_service_ticket w c0 = (Some t, c1)" "t \<noteq> []"
        "search_get w (requests c1) t tm True = Reply 200 (Some (NotDict msg # rest))"
      then have "fst (search_umls_concept w tm c0) = []" by (rule search_first_entry_raises)
      then show ?marker by (rule marker)
    qed
    have 5: "\<forall>t c1 t2 c2. get_fresh_service_ticket w c0 = (Some t, c1) \<and> t \<noteq> []
                  \<and> search_get w (requests c1) t tm True = Reply 200 (Some [])
                  \<and> get_fresh_service_ticket w (sent c1) = (t2, c2)
                  \<and> (\<not> truthy t2 \<or> search_failed (search_get w (requests c2) (the t2) tm False))
           \<longrightarrow> ?marker"
    proof (intro allI impI, elim conjE)
      fix t c1 t2 c2
      assume "get_fresh_service_ticket w c0 = (Some t, c1)" "t \<noteq> []"
        "search_get w (requests c1) t tm True = Reply 200 (Some [])"
        "get_fresh_service_ticket w (sent c1) = (t2, c2)"
        "\<not> truthy t2 \<or> search_failed (search_get w (requests c2) (the t2) tm False)"
      then have "fst (search_umls_concept w tm c0) = []" by (rule search_approximate_failure)
      then show ?marker by (rule marker)
    qed
    have 6: "\<forall>cui concept rest c2 t c3.
             search_umls_concept w tm c0 = (Hit cui concept # rest, c2)
             \<and> get_fresh_service_ticket w c2 = (t, c3)
             \<and> (\<not> truthy t \<or> details_failed (concept_get w (requests c3) cui (the t)))
           \<longrightarrow> fst (lookup_term w tm c)
                 = \<lparr>lr_entity_type = UNKNOWN, lr_umls_code = Some cui,
                    lr_confidence =
                      round3 w (1 / 2 * calculate_name_similarity (lower tm) (lower concept)),
                    lr_metadata = Some (MetaSuccess concept []
                      (round3 w (calculate_name_similarity (lower tm) (lower concept))))\<rparr>
             \<and> 3 / 10 \<le> 1 / 2 * calculate_name_similarity (lower tm) (lower concept)
             \<and> 1 / 2 * calculate_name_similarity (lower tm) (lower concept) \<le> 1 / 2
             \<and> (use_cache c \<longrightarrow>
                  cached_as (snd (lookup_term w tm c)) tm (fst (lookup_term w tm c)))"
    proof (intro allI impI, elim conjE)
      fix cui concept rest c2 t c3
      assume s: "search_umls_concept w tm c0 = (Hit cui concept # rest, c2)"
        and t: "get_fresh_service_ticket w c2 = (t, c3)"
        and f: "\<not> truthy t \<or> details_failed (concept_get w (requests c3) cui (the t))"
      let ?sim = "calculate_name_similarity (lower tm) (lower concept)"
      let ?r = "\<lparr>lr_entity_type = UNKNOWN, lr_umls_code = Some cui,
                 lr_confidence = round3 w (1 / 2 * ?sim),
                 lr_metadata = Some (MetaSuccess concept [] (round3 w ?sim))\<rparr>"
      from details_fetch_failure [OF t f] have d: "fst (get_concept_details w cui c2) = None" .
      from assms key s have e: "lookup_term w tm c = resolve_concept w tm cui concept c2"
        by (simp add: lookup_term_def)
      from resolve_concept_details_failed [OF d, of tm concept] e
      have l: "lookup_term w tm c = (?r, cache_result w tm ?r (snd (get_concept_details w cui c2)))"
        by simp
      from use_cache_search [of w tm c0] s u0 have "use_cache c2 = use_cache c" by simp
      with use_cache_details [of w cui c2]
      have u3: "use_cache (snd (get_concept_details w cui c2)) = use_cache c" by simp
      from similarity_bounds [of "lower tm" "lower concept"]
      have b: "3 / 10 \<le> 1 / 2 * ?sim" "1 / 2 * ?sim \<le> 1 / 2" by simp_all
      from l u3 cache_result_cached_as [of "snd (get_concept_details w cui c2)" w tm ?r]
      have "use_cache c \<longrightarrow> cached_as (snd (lookup_term w tm c)) tm (fst (lookup_term w tm c))"
        by simp
      with l b show "fst (lookup_term w tm c) = ?r
             \<and> 3 / 10 \<le> 1 / 2 * ?sim \<and> 1 / 2 * ?sim \<le> 1 / 2
             \<and> (use_cache c \<longrightarrow>
                  cached_as (snd (lookup_term w tm c)) tm (fst (lookup_term w tm c)))"
        by simp
    qed
    have 7: "\<forall>msg rest c2. search_umls_concept w tm c0 = (NotDict msg # rest, c2)
           \<longrightarrow> lookup_term w tm c = (error_result msg, c2) \<and> cache c2 = cache c"
    proof (intro allI impI)
      fix msg rest c2
      assume s: "search_umls_concept w tm c0 = (NotDict msg # rest, c2)"
      from cache_search [of w tm c0] s k0 have "cache c2 = cache c" by simp
      with assms key s show "lookup_term w tm c = (error_result msg, c2) \<and> cache c2 = cache c"
        by (simp add: lookup_term_def)
    qed
    have 8: "\<forall>cui msg rest c2. search_umls_concept w tm c0 = (BadName cui msg # rest, c2)
           \<longrightarrow> lookup_term w tm c = (error_result msg, snd (get_concept_details w cui c2))
             \<and> cache (snd (get_concept_details w cui c2)) = cache c"
    proof (intro allI impI)
      fix cui msg rest c2
      assume s: "search_umls_concept w tm c0 = (BadName cui msg # rest, c2)"
      from cache_search [of w tm c0] s k0 have "cache c2 = cache c" by simp
      with assms key s
      show "lookup_term w tm c = (error_result msg, snd (get_concept_details w cui c2))
             \<and> cache (snd (get_concept_details w cui c2)) = cache c"
        by (simp add: lookup_term_def split: prod.splits)
    qed
    show "(\<not> tgt_valid w c0 \<and> auth_failed (auth_post w (requests c0) (api_key c0)) \<longrightarrow> ?marker)
      \<and> (\<forall>url c1. get_tgt_url w c0 = (Some url, c1)
                    \<and> ticket_failed (ticket_post w (requests c1) url) \<longrightarrow> ?marker)
      \<and> (\<forall>t c1. get_fresh_service_ticket w c0 = (Some t, c1)
                  \<and> search_failed (search_get w (requests c1) t tm True) \<longrightarrow> ?marker)
      \<and> (\<forall>t c1 msg rest. get_fresh_service_ticket w c0 = (Some t, c1) \<and> t \<noteq> []
                  \<and> search_get w (requests c1) t tm True = Reply 200 (Some (NotDict msg # rest))
           \<longrightarrow> ?marker)
      \<and> (\<forall>t c1 t2 c2. get_fresh_service_ticket w c0 = (Some t, c1) \<and> t \<noteq> []
                  \<and> search_get w (requests c1) t tm True = Reply 200 (Some [])
                  \<and> get_fresh_service_ticket w (sent c1) = (t2, c2)
                  \<and> (\<not> truthy t2 \<or> search_failed (search_get w (requests c2) (the t2) tm False))
           \<longrightarrow> ?marker)
      \<and> (\<forall>cui concept rest c2 t c3.
             search_umls_concept w tm c0 = (Hit cui concept # rest, c2)
             \<and> get_fresh_service_ticket w c2 = (t, c3)
             \<and> (\<not> truthy t \<or> details_failed (concept_get w (requests c3) cui (the t)))
           \<longrightarrow> fst (lookup_term w tm c)
                 = \<lparr>lr_entity_type = UNKNOWN, lr_umls_code = Some cui,
                    lr_confidence =
                      round3 w (1 / 2 * calculate_name_similarity (lower tm) (lower concept)),
                    lr_metadata = Some (MetaSuccess concept []
                      (round3 w (calculate_name_similarity (lower tm) (lower concept))))\<rparr>
             \<and> 3 / 10 \<le> 1 / 2 * calculate_name_similarity (lower tm) (lower concept)
             \<and> 1 / 2 * calculate_name_similarity (lower tm) (lower concept) \<le> 1 / 2
             \<and> (use_cache c \<longrightarrow>
                  cached_as (snd (lookup_term w tm c)) tm (fst (lookup_term w tm c))))
      \<and> (\<forall>msg rest c2. search_umls_concept w tm c0 = (NotDict msg # rest, c2)
           \<longrightarrow> lookup_term w tm c = (error_result msg, c2) \<and> cache c2 = cache c)
      \<and> (\<forall>cui msg rest c2. search_umls_concept w tm c0 = (BadName cui msg # rest, c2)
           \<longrightarrow> lookup_term w tm c = (error_result msg, snd (get_concept_details w cui c2))
             \<and> cache (snd (get_concept_details w cui c2)) = cache c)"
      by (intro conjI) (rule 1 2 3 4 5 6 7 8)+
  qed
  have fields: "lr_entity_type (error_result m) = UNKNOWN \<and> lr_confidence (error_result m) = 0
   \<and> lr_umls_code (error_result m) = None
   \<and> lr_entity_type no_results = UNKNOWN \<and> lr_confidence no_results = 3 / 10
   \<and> lr_umls_code no_results = None"
    by (simp add: error_result_def no_results_def)
  from fields have "lr_entity_type (error_result m) = UNKNOWN" "lr_confidence (error_result m) = 0"
    "lr_umls_code (error_result m) = None" "lr_entity_type no_results = UNKNOWN"
    "lr_confidence no_results = 3 / 10" "lr_umls_code no_results = None"
    by simp_all
  with nokey withkey show ?thesis by (intro conjI)
qed

theorem lookup_term_degrades_witness:
  "lookup_term offline_world ''Aspirin'' fresh_client = (error_result ''No API key'', fresh_client)
   \<and> fst (lookup_term auth_down_world ''Aspirin'' fresh_client) = no_results
   \<and> cached_as (snd (lookup_term auth_down_world ''Aspirin'' fresh_client)) ''Aspirin'' no_results
   \<and> fst (lookup_term ticket_down_world ''Aspirin'' fresh_client) = no_results
   \<and> cached_as (snd (lookup_term ticket_down_world ''Aspirin'' fresh_client)) ''Aspirin'' no_results
   \<and> fst (lookup_term search_down_world ''Aspirin'' fresh_client) = no_results
   \<and> cached_as (snd (lookup_term search_down_world ''Aspirin'' fresh_client)) ''Aspirin'' no_results
   \<and> fst (lookup_term garbled_world ''Aspirin'' fresh_client) = no_results
   \<and> cached_as (snd (lookup_term garbled_world ''Aspirin'' fresh_client)) ''Aspirin'' no_results
   \<and> fst (lookup_term approx_down_world ''Aspirin'' fresh_client) = no_results
   \<and> cached_as (snd (lookup_term approx_down_world ''Aspirin'' fresh_client)) ''Aspirin'' no_results
   \<and> fst (lookup_term details_down_world ''Aspirin'' fresh_client)
       = \<lparr>lr_entity_type = UNKNOWN, lr_umls_code = Some ''C0004057'', lr_confidence = 1 / 2,
          lr_metadata = Some (MetaSuccess ''aspirin'' [] 1)\<rparr>
   \<and> cached_as (snd (lookup_term details_down_world ''Aspirin'' fresh_client)) ''Aspirin''
        (fst (lookup_term details_down_world ''Aspirin'' fresh_client))
   \<and> fst (lookup_term approx_garbled_world ''Aspirin'' fresh_client) = error_result ''get''
   \<and> cache (snd (lookup_term approx_garbled_world ''Aspirin'' fresh_client)) = []
   \<and> fst (lookup_term nameless_world ''Aspirin'' fresh_client) = error_result ''lower''
   \<and> cache (snd (lookup_term nameless_world ''Aspirin'' fresh_client)) = []
   \<and> requests (snd (lookup_term nameless_world ''Aspirin'' fresh_client)) = 5"
proof -
  have u: "use_cache fresh_client" by (simp add: fresh_client_def)
  have e: "cache fresh_client = []" by (simp add: fresh_client_def)
  have offline: "lookup_term offline_world ''Aspirin'' fresh_client
                   = (error_result ''No API key'', fresh_client)"
  proof -
    have h: "get_cached_result offline_world ''Aspirin'' fresh_client = (None, fresh_client)"
      by code_simp
    have k: "\<not> truthy (environ_api_key offline_world)" by code_simp
    from lookup_term_degrades [OF h, THEN conjunct1, THEN mp, OF k] show ?thesis by simp
  qed
  have auth: "fst (lookup_term auth_down_world ''Aspirin'' fresh_client) = no_results
     \<and> cached_as (snd (lookup_term auth_down_world ''Aspirin'' fresh_client)) ''Aspirin'' no_results"
  proof -
    have h: "get_cached_result auth_down_world ''Aspirin'' fresh_client = (None, fresh_client)"
      by code_simp
    have k: "truthy (environ_api_key auth_down_world)" by code_simp
    have a: "\<not> tgt_valid auth_down_world fresh_client" by code_simp
    have b: "auth_failed (auth_post auth_down_world (requests fresh_client) (api_key fresh_client))"
      by code_simp
    note T = lookup_term_degrades [OF h, THEN conjunct2, THEN conjunct1, THEN mp, OF k]
    from T [THEN conjunct1, THEN mp, OF conjI [OF a b]] u show ?thesis by simp
  qed
  have ticket: "fst (lookup_term ticket_down_world ''Aspirin'' fresh_client) = no_results
     \<and> cached_as (snd (lookup_term ticket_down_world ''Aspirin'' fresh_client)) ''Aspirin'' no_results"
  proof -
    let ?c1 = "snd (get_tgt_url ticket_down_world fresh_client)"
    let ?url = "''https://utslogin.nlm.nih.gov/cas/v1/api-key/TGT-1''"
    have h: "get_cached_result ticket_down_world ''Aspirin'' fresh_client = (None, fresh_client)"
      by code_simp
    have k: "truthy (environ_api_key ticket_down_world)" by code_simp
    have "fst (get_tgt_url ticket_down_world fresh_client) = Some ?url" by code_simp
    then have a: "get_tgt_url ticket_down_world fresh_client = (Some ?url, ?c1)"
      by (simp add: prod_eq_iff)
    have b: "ticket_failed (ticket_post ticket_down_world (requests ?c1) ?url)" by code_simp
    note T = lookup_term_degrades [OF h, THEN conjunct2, THEN conjunct1, THEN mp, OF k]
    from T [THEN conjunct2, THEN conjunct1, THEN spec, THEN spec, THEN mp, OF conjI [OF a b]] u
    show ?thesis by simp
  qed
  have search: "fst (lookup_term search_down_world ''Aspirin'' fresh_client) = no_results
     \<and> cached_as (snd (lookup_term search_down_world ''Aspirin'' fresh_client)) ''Aspirin'' no_results"
  proof -
    let ?c1 = "snd (get_fresh_service_ticket search_down_world fresh_client)"
    have h: "get_cached_result search_down_world ''Aspirin'' fresh_client = (None, fresh_client)"
      by code_simp
    have k: "truthy (environ_api_key search_down_world)" by code_simp
    have "fst (get_fresh_service_ticket search_down_world fresh_client) = Some ''ST-1''"
      by code_simp
    then have a: "get_fresh_service_ticket search_down_world fresh_client = (Some ''ST-1'', ?c1)"
      by (simp add: prod_eq_iff)
    have b: "search_failed (search_get search_down_world (requests ?c1) ''ST-1'' ''Aspirin'' True)"
      by code_simp
    note T = lookup_term_degrades [OF h, THEN conjunct2, THEN conjunct1, THEN mp, OF k]
    from T [THEN conjunct2, THEN conjunct2, THEN conjunct1, THEN spec, THEN spec, THEN mp,
            OF conjI [OF a b]] u
    show ?thesis by simp
  qed
  have garbled: "fst (lookup_term garbled_world ''Aspirin'' fresh_client) = no_results
     \<and> cached_as (snd (lookup_term garbled_world ''Aspirin'' fresh_client)) ''Aspirin'' no_results"
  proof -
    let ?c1 = "snd (get_fresh_service_ticket garbled_world fresh_client)"
    have h: "get_cached_result garbled_world ''Aspirin'' fresh_client = (None, fresh_client)"
      by code_simp
    have k: "truthy (environ_api_key garbled_world)" by code_simp
    have "fst (get_fresh_service_ticket garbled_world fresh_client) = Some ''ST-1''"
      by code_simp
    then have a: "get_fresh_service_ticket garbled_world fresh_client = (Some ''ST-1'', ?c1)"
      by (simp add: prod_eq_iff)
    have n: "''ST-1'' \<noteq> []" by simp
    have b: "search_get garbled_world (requests ?c1) ''ST-1'' ''Aspirin'' True
               = Reply 200 (Some (NotDict ''get'' # [Hit ''C0004057'' ''aspirin'']))"
      by (simp add: garbled_world_def)
    note T = lookup_term_degrades [OF h, THEN conjunct2, THEN conjunct1, THEN mp, OF k]
    from T [THEN conjunct2, THEN conjunct2, THEN conjunct2, THEN conjunct1,
            THEN spec, THEN spec, THEN spec, THEN spec, THEN mp,
            OF conjI [OF a conjI [OF n b]]] u
    show ?thesis by simp
  qed
  have approx: "fst (lookup_term approx_down_world ''Aspirin'' fresh_client) = no_results
     \<and> cached_as (snd (lookup_term approx_down_world ''Aspirin'' fresh_client)) ''Aspirin'' no_results"
  proof -
    let ?c1 = "snd (get_fresh_service_ticket approx_down_world fresh_client)"
    let ?c2 = "snd (get_fresh_service_ticket approx_down_world (sent ?c1))"
    have h: "get_cached_result approx_down_world ''Aspirin'' fresh_client = (None, fresh_client)"
      by code_simp
    have k: "truthy (environ_api_key approx_down_world)" by code_simp
    have "fst (get_fresh_service_ticket approx_down_world fresh_client) = Some ''ST-1''"
      by code_simp
    then have a: "get_fresh_service_ticket approx_down_world fresh_client = (Some ''ST-1'', ?c1)"
      by (simp add: prod_eq_iff)
    have n: "''ST-1'' \<noteq> []" by simp
    have b: "search_get approx_down_world (requests ?c1) ''ST-1'' ''Aspirin'' True
               = Reply 200 (Some [])"
      by (simp add: approx_down_world_def)
    have "fst (get_fresh_service_ticket approx_down_world (sent ?c1)) = Some ''ST-1''"
      by code_simp
    then have a2: "get_fresh_service_ticket approx_down_world (sent ?c1) = (Some ''ST-1'', ?c2)"
      by (simp add: prod_eq_iff)
    have "search_failed (search_get approx_down_world (requests ?c2) (the (Some ''ST-1''))
                           ''Aspirin'' False)"
      by (simp add: approx_down_world_def)
    then have b2: "\<not> truthy (Some ''ST-1'')
        \<or> search_failed (search_get approx_down_world (requests ?c2) (the (Some ''ST-1''))
                           ''Aspirin'' False)" ..
    note T = lookup_term_degrades [OF h, THEN conjunct2, THEN conjunct1, THEN mp, OF k]
    from T [THEN conjunct2, THEN conjunct2, THEN conjunct2, THEN conjunct2, THEN conjunct1,
            THEN spec, THEN spec, THEN spec, THEN spec, THEN mp,
            OF conjI [OF a conjI [OF n conjI [OF b conjI [OF a2 b2]]]]] u
    show ?thesis by simp
  qed
  have details: "fst (lookup_term details_down_world ''Aspirin'' fresh_client)
       = \<lparr>lr_entity_type = UNKNOWN, lr_umls_code = Some ''C0004057'', lr_confidence = 1 / 2,
          lr_metadata = Some (MetaSuccess ''aspirin'' [] 1)\<rparr>
     \<and> cached_as (snd (lookup_term details_down_world ''Aspirin'' fresh_client)) ''Aspirin''
          (fst (lookup_term details_down_world ''Aspirin'' fresh_client))"
  proof -
    let ?c2 = "snd (search_umls_concept details_down_world ''Aspirin'' fresh_client)"
    let ?c3 = "snd (get_fresh_service_ticket details_down_world ?c2)"
    have h: "get_cached_result details_down_world ''Aspirin'' fresh_client = (None, fresh_client)"
      by code_simp
    have k: "truthy (environ_api_key details_down_world)" by code_simp
    have "fst (search_umls_concept details_down_world ''Aspirin'' fresh_client)
            = [Hit ''C0004057'' ''aspirin'']" by code_simp
    then have s: "search_umls_concept details_down_world ''Aspirin'' fresh_client
            = (Hit ''C0004057'' ''aspirin'' # [], ?c2)" by (simp add: prod_eq_iff)
    have "fst (get_fresh_service_ticket details_down_world ?c2) = Some ''ST-1''" by code_simp
    then have t: "get_fresh_service_ticket details_down_world ?c2 = (Some ''ST-1'', ?c3)"
      by (simp add: prod_eq_iff)
    have "details_failed (concept_get details_down_world (requests ?c3) ''C0004057''
                            (the (Some ''ST-1'')))"
      by (simp add: details_down_world_def)
    then have d: "\<not> truthy (Some ''ST-1'')
        \<or> details_failed (concept_get details_down_world (requests ?c3) ''C0004057''
                            (the (Some ''ST-1'')))" ..
    have v: "round3 details_down_world
               (1 / 2 * calculate_name_similarity (lower ''Aspirin'') (lower ''aspirin'')) = 1 / 2
           \<and> round3 details_down_world
               (calculate_name_similarity (lower ''Aspirin'') (lower ''aspirin'')) = 1"
      by code_simp
    note T = lookup_term_degrades [OF h, THEN conjunct2, THEN conjunct1, THEN mp, OF k]
    note F = T [THEN conjunct2, THEN conjunct2, THEN conjunct2, THEN conjunct2, THEN conjunct2,
                THEN conjunct1, THEN spec, THEN spec, THEN spec, THEN spec, THEN spec, THEN spec,
                THEN mp, OF conjI [OF s conjI [OF t d]]]
    from F [THEN conjunct1] v
    have r: "fst (lookup_term details_down_world ''Aspirin'' fresh_client)
       = \<lparr>lr_entity_type = UNKNOWN, lr_umls_code = Some ''C0004057'', lr_confidence = 1 / 2,
          lr_metadata = Some (MetaSuccess ''aspirin'' [] 1)\<rparr>"
      by simp
    from F [THEN conjunct2, THEN conjunct2, THEN conjunct2, THEN mp, OF u]
    have ca: "cached_as (snd (lookup_term details_down_world ''Aspirin'' fresh_client)) ''Aspirin''
          (fst (lookup_term details_down_world ''Aspirin'' fresh_client))" .
    from r ca show ?thesis by (rule conjI)
  qed
  have approx_garbled:
    "fst (lookup_term approx_garbled_world ''Aspirin'' fresh_client) = error_result ''get''
     \<and> cache (snd (lookup_term approx_garbled_world ''Aspirin'' fresh_client)) = []"
  proof -
    let ?c2 = "snd (search_umls_concept approx_garbled_world ''Aspirin'' fresh_client)"
    have h: "get_cached_result approx_garbled_world ''Aspirin'' fresh_client = (None, fresh_client)"
      by code_simp
    have k: "truthy (environ_api_key approx_garbled_world)" by code_simp
    have "fst (search_umls_concept approx_garbled_world ''Aspirin'' fresh_client)
            = [NotDict ''get'']" by code_simp
    then have s: "search_umls_concept approx_garbled_world ''Aspirin'' fresh_client
            = (NotDict ''get'' # [], ?c2)" by (simp add: prod_eq_iff)
    note T = lookup_term_degrades [OF h, THEN conjunct2, THEN conjunct1, THEN mp, OF k]
    from T [THEN conjunct2, THEN conjunct2, THEN conjunct2, THEN conjunct2, THEN conjunct2,
            THEN conjunct2, THEN conjunct1, THEN spec, THEN spec, THEN spec, THEN mp, OF s]
    have "lookup_term approx_garbled_world ''Aspirin'' fresh_client = (error_result ''get'', ?c2)
          \<and> cache ?c2 = cache fresh_client" .
    with e show ?thesis by simp
  qed
  have nameless:
    "fst (lookup_term nameless_world ''Aspirin'' fresh_client) = error_result ''lower''
     \<and> cache (snd (lookup_term nameless_world ''Aspirin'' fresh_client)) = []
     \<and> requests (snd (lookup_term nameless_world ''Aspirin'' fresh_client)) = 5"
  proof -
    let ?c2 = "snd (search_umls_concept nameless_world ''Aspirin'' fresh_client)"
    let ?c3 = "snd (get_concept_details nameless_world ''C0004057'' ?c2)"
    have h: "get_cached_result nameless_world ''Aspirin'' fresh_client = (None, fresh_client)"
      by code_simp
    have k: "truthy (environ_api_key nameless_world)" by code_simp
    have "fst (search_umls_concept nameless_world ''Aspirin'' fresh_client)
            = [BadName ''C0004057'' ''lower'']" by code_simp
    then have s: "search_umls_concept nameless_world ''Aspirin'' fresh_client
            = (BadName ''C0004057'' ''lower'' # [], ?c2)" by (simp add: prod_eq_iff)
    have r: "requests ?c3 = 5" by code_simp
    note T = lookup_term_degrades [OF h, THEN conjunct2, THEN conjunct1, THEN mp, OF k]
    from T [THEN conjunct2, THEN conjunct2, THEN conjunct2, THEN conjunct2, THEN conjunct2,
            THEN conjunct2, THEN conjunct2, THEN spec, THEN spec, THEN spec, THEN spec,
            THEN mp, OF s]
    have "lookup_term nameless_world ''Aspirin'' fresh_client = (error_result ''lower'', ?c3)
          \<and> cache ?c3 = cache fresh_client" .
    with e r show ?thesis by simp
  qed
  note parts =
    offline auth [THEN conjunct1] auth [THEN conjunct2]
    ticket [THEN conjunct1] ticket [THEN conjunct2]
    search [THEN conjunct1] search [THEN conjunct2]
    garbled [THEN conjunct1] garbled [THEN conjunct2]
    approx [THEN conjunct1] approx [THEN conjunct2]
    details [THEN conjunct1] details [THEN conjunct2]
    approx_garbled [THEN conjunct1] approx_garbled [THEN conjunct2]
    nameless [THEN conjunct1] nameless [THEN conjunct2, THEN conjunct1]
    nameless [THEN conjunct2, THEN conjunct2]
  show ?thesis by (intro conjI) (rule parts)+
qed

text \<open>
  The claim as stated fails when only the concept-detail request fails: the result is
  neither of confidence 0.0 nor the no-result marker, but the concept found, of type
  UNKNOWN, with confidence 0.5, stored in the cache as a successful lookup.
\<close>

theorem detail_failure_keeps_confidence:
  "fst (lookup_term details_down_world ''Aspirin'' fresh_client)
     = \<lparr>lr_entity_type = UNKNOWN, lr_umls_code = Some ''C0004057'', lr_confidence = 1 / 2,
        lr_metadata = Some (MetaSuccess ''aspirin'' [] 1)\<rparr>
   \<and> lr_confidence (fst (lookup_term details_down_world ''Aspirin'' fresh_client)) \<noteq> 0
   \<and> fst (lookup_term details_down_world ''Aspirin'' fresh_client) \<noteq> no_results"
  by code_simp

end
